theory Spec2Isabelle
  imports Complex_Main "HOL-Library.Log_Nat"
begin

section \<open>JavaScript values the server code computes with\<close>

subsection \<open>Decimal rendering of integers\<close>

text \<open>
  Template literals such as \<^verbatim>\<open>`${highPriorityIncomplete} high-priority ...`\<close> render a
  non-negative integer in decimal, most significant digit first.
\<close>

definition digit_char :: "nat \<Rightarrow> char" where
  "digit_char d = ''0123456789'' ! d"

fun string_of_nat :: "nat \<Rightarrow> string" where
  "string_of_nat n =
     (if n < 10 then [digit_char n]
      else string_of_nat (n div 10) @ [digit_char (n mod 10)])"

declare string_of_nat.simps [simp del]

subsection \<open>IEEE 754 double arithmetic\<close>

text \<open>
  JavaScript numbers and SQLite \<^verbatim>\<open>REAL\<close>s are binary64 values. A double is modelled by the
  rational it denotes; every arithmetic operation returns the double nearest to the exact
  result (53 significant bits, ties to the even significand). Only finite, normal,
  non-negative values arise in this program (quotients and products of array lengths), so
  overflow, subnormals, NaN and signed zero are not modelled.
\<close>

definition ilog2 :: "rat \<Rightarrow> int" where
  \<comment> \<open>the binary exponent \<open>\<lfloor>log\<^sub>2 x\<rfloor>\<close> of a positive rational\<close>
  "ilog2 x = (if 1 \<le> x then bitlen \<lfloor>x\<rfloor> - 1 else - bitlen (\<lceil>1 / x\<rceil> - 1))"

definition pow2 :: "int \<Rightarrow> rat" where
  "pow2 e = (if 0 \<le> e then 2 ^ nat e else 1 / 2 ^ nat (- e))"

definition round_half_even :: "rat \<Rightarrow> int" where
  "round_half_even q =
     (let f = \<lfloor>q\<rfloor>; r = q - of_int f
      in if r < 1 / 2 then f
         else if 1 / 2 < r then f + 1
         else if even f then f else f + 1)"

definition to_double :: "rat \<Rightarrow> rat" where
  "to_double x =
     (if x = 0 then 0
      else let ulp = pow2 (ilog2 \<bar>x\<bar> - 52)
           in of_int (round_half_even (x / ulp)) * ulp)"

definition js_div :: "rat \<Rightarrow> rat \<Rightarrow> rat" where
  \<comment> \<open>\<^verbatim>\<open>a / b\<close> for a non-zero divisor\<close>
  "js_div a b = to_double (a / b)"

definition js_mul :: "rat \<Rightarrow> rat \<Rightarrow> rat" where
  "js_mul a b = to_double (a * b)"

text \<open>
  \<^verbatim>\<open>Number.prototype.toFixed(f)\<close> for \<open>0 \<le> x < 10\<^sup>2\<^sup>1\<close>: the integer \<open>n\<close> with
  \<open>n / 10\<^sup>f\<close> nearest to the exact value of the double, the larger one on a tie, printed
  with \<open>f\<close> digits after the point.
\<close>

definition toFixed :: "nat \<Rightarrow> rat \<Rightarrow> string" where
  "toFixed f x =
     (let n = nat \<lfloor>x * 10 ^ f + 1 / 2\<rfloor>; m = string_of_nat n
      in if f = 0 then m
         else let m' = (if length m \<le> f then replicate (f + 1 - length m) CHR ''0'' @ m else m);
                  k = length m' - f
              in take k m' @ ''.'' @ drop k m')"

text \<open>
  \<^verbatim>\<open>parseInt(s)\<close> on a string: the longest prefix of decimal digits read as a number,
  \<open>None\<close> (NaN) when there is no such digit. (Leading white space, a sign and a
  hexadecimal prefix, which \<^verbatim>\<open>parseInt\<close> also accepts, do not occur in the output of
  \<^verbatim>\<open>toFixed\<close> on a non-negative number.)
\<close>

definition is_digit :: "char \<Rightarrow> bool" where
  "is_digit c = (c \<in> set ''0123456789'')"

definition digit_val :: "char \<Rightarrow> nat" where
  "digit_val c = of_char c - 48"

definition parseInt :: "string \<Rightarrow> nat option" where
  "parseInt s =
     (let ds = takeWhile is_digit s
      in if ds = [] then None else Some (foldl (\<lambda>a c. 10 * a + digit_val c) 0 ds))"

subsection \<open>\<^verbatim>\<open>Array.prototype.sort\<close>\<close>

text \<open>
  \<^verbatim>\<open>sort(cmp)\<close> is stable (ECMAScript 2019): for a consistent comparator its result is the
  one sorted permutation that keeps elements comparing equal in their original order.
  Insertion from the right computes it.
\<close>

fun js_insert :: "('a \<Rightarrow> 'a \<Rightarrow> int) \<Rightarrow> 'a \<Rightarrow> 'a list \<Rightarrow> 'a list" where
  "js_insert cmp x [] = [x]"
| "js_insert cmp x (y # ys) = (if cmp x y \<le> 0 then x # y # ys else y # js_insert cmp x ys)"

definition js_sort :: "('a \<Rightarrow> 'a \<Rightarrow> int) \<Rightarrow> 'a list \<Rightarrow> 'a list" where
  "js_sort cmp xs = foldr (js_insert cmp) xs []"

section \<open>The task table and the analysis types (database.ts, ai-service.ts)\<close>

text \<open>
  A row of the \<^verbatim>\<open>tasks\<close> table. \<^verbatim>\<open>status\<close> and \<^verbatim>\<open>priority\<close> are \<^verbatim>\<open>TEXT\<close> columns with no
  check constraint, so they are strings here (\<open>None\<close> is SQL \<^verbatim>\<open>NULL\<close>). Instants are
  milliseconds since the epoch; \<^verbatim>\<open>position\<close> is an integer.
\<close>

record Task =
  task_id :: nat
  title :: string
  description :: "string option"
  status :: string
  priority :: "string option"
  created_at :: nat
  completed_at :: "nat option"
  position :: int

record AnalysisResult =
  patterns :: "string list"
  completionInsights :: "string list"
  failureReasons :: "string list"
  recommendations :: "string list"

section \<open>The heuristic analysis (AIService.basicAnalysis)\<close>

definition completionRate :: "Task list \<Rightarrow> Task list \<Rightarrow> string" where
  \<comment> \<open>\<^verbatim>\<open>tasks.length > 0 ? (completedTasks.length / tasks.length * 100).toFixed(0) : 0\<close>;
      the number \<^verbatim>\<open>0\<close> of the other branch prints and parses as the string \<^verbatim>\<open>"0"\<close>\<close>
  "completionRate tasks completedTasks =
     (if length tasks > 0
      then toFixed 0 (js_mul (js_div (of_nat (length completedTasks)) (of_nat (length tasks))) 100)
      else ''0'')"

definition highPriority :: "Task list \<Rightarrow> nat" where
  \<comment> \<open>\<^verbatim>\<open>ts.filter(t => t.priority === 'high').length\<close>\<close>
  "highPriority ts = length (filter (\<lambda>t. priority t = Some ''high'') ts)"

definition bucket :: "string \<Rightarrow> Task list \<Rightarrow> nat" where
  \<comment> \<open>\<^verbatim>\<open>tasks.filter(t => t.priority === p).length\<close>\<close>
  "bucket p tasks = length (filter (\<lambda>t. priority t = Some p) tasks)"

definition priorityDist :: "Task list \<Rightarrow> (string \<times> nat) list" where
  \<comment> \<open>\<^verbatim>\<open>Object.entries(priorityDist)\<close>: the three literal keys in insertion order\<close>
  "priorityDist tasks =
     [(''high'', bucket ''high'' tasks),
      (''medium'', bucket ''medium'' tasks),
      (''low'', bucket ''low'' tasks)]"

definition mostCommon :: "Task list \<Rightarrow> string \<times> nat" where
  \<comment> \<open>\<^verbatim>\<open>Object.entries(priorityDist).sort((a, b) => b[1] - a[1])[0]\<close>\<close>
  "mostCommon tasks = hd (js_sort (\<lambda>a b. int (snd b) - int (snd a)) (priorityDist tasks))"

definition finish_line :: string where
  "finish_line = ''Focus on completing existing tasks before adding new ones''"

definition prioritize_line :: string where
  "prioritize_line = ''Prioritize high-priority tasks first for better productivity''"

definition archive_line :: string where
  "archive_line = ''Consider archiving or deleting tasks that are no longer relevant''"

definition encouragement_line :: string where
  "encouragement_line = ''Great job managing your task list! Keep up the momentum''"

definition rate_below_50 :: "string \<Rightarrow> bool" where
  \<comment> \<open>\<^verbatim>\<open>parseInt(completionRate as string) < 50\<close>; a comparison with NaN is false\<close>
  "rate_below_50 r = (case parseInt r of None \<Rightarrow> False | Some p \<Rightarrow> p < 50)"

definition basicAnalysis :: "Task list \<Rightarrow> Task list \<Rightarrow> Task list \<Rightarrow> AnalysisResult" where
  "basicAnalysis tasks completedTasks incompleteTasks =
     (let highPriorityCompleted = highPriority completedTasks;
          highPriorityIncomplete = highPriority incompleteTasks
      in \<lparr>patterns =
            (if length tasks > 0
             then [''You create an average of '' @ toFixed 1 (js_div (of_nat (length tasks)) 7)
                     @ '' tasks per week'',
                   ''Most tasks are '' @ fst (mostCommon tasks) @ '' priority (''
                     @ string_of_nat (snd (mostCommon tasks)) @ '' tasks)'']
             else []),
          completionInsights =
            (if length completedTasks > 0
             then [''You have a '' @ completionRate tasks completedTasks @ ''% completion rate'']
                  @ (if highPriorityCompleted > 0
                     then [''You'' @ [CHR 0x27] @ ''ve completed ''
                             @ string_of_nat highPriorityCompleted @ '' high-priority tasks'']
                     else [])
             else [''No tasks completed yet - start checking items off your list!'']),
          failureReasons =
            (if length incompleteTasks > 0
             then (if highPriorityIncomplete > 0
                   then [string_of_nat highPriorityIncomplete
                           @ '' high-priority tasks are still pending'']
                   else [])
                  @ (if length incompleteTasks > length completedTasks
                     then [''More incomplete tasks than completed - consider breaking down large tasks'']
                     else [])
             else []),
          recommendations =
            (if rate_below_50 (completionRate tasks completedTasks) \<and> length tasks > 3
             then [finish_line] else [])
            @ (if highPriorityIncomplete > 0 then [prioritize_line] else [])
            @ (if length incompleteTasks > 10 then [archive_line] else [encouragement_line])\<rparr>)"

definition displayed_rate :: "Task list \<Rightarrow> Task list \<Rightarrow> nat" where
  \<comment> \<open>the whole percentage that \<^verbatim>\<open>completionRate\<close> spells: the double
      \<^verbatim>\<open>completedTasks.length / tasks.length * 100\<close> rounded to the nearest integer, upwards
      on a tie\<close>
  "displayed_rate tasks completedTasks =
     (if length tasks > 0
      then nat \<lfloor>js_mul (js_div (of_nat (length completedTasks)) (of_nat (length tasks))) 100
                  + 1 / 2\<rfloor>
      else 0)"

section \<open>The analysis entry point (AIService.analyzeTasks)\<close>

subsection \<open>What the outside world hands back\<close>

text \<open>
  A call that may throw, or a promise that may reject, either fails or yields a value.
\<close>

datatype 'a settled = Rejected | Fulfilled 'a

datatype json =
    JNull
  | JBool bool
  | JNum rat
  | JStr string
  | JArr "json list"
  | JObj "(string \<times> json) list"

text \<open>
  A JavaScript value read out of parsed JSON is a \<^typ>\<open>json\<close> or \<^verbatim>\<open>undefined\<close> (\<open>None\<close>).
  The response object of \<^verbatim>\<open>fetch\<close> is what the code reads of it: \<^verbatim>\<open>ok\<close>, and the outcomes
  of \<^verbatim>\<open>text()\<close> and \<^verbatim>\<open>json()\<close>.
\<close>

record Response =
  resp_ok :: bool
  resp_text :: "string settled"
  resp_json :: "json settled"

record FetchRequest =
  endpoint :: string
  authorization :: string
  user_content :: string

subsection \<open>Reading the reply\<close>

definition truthy :: "json option \<Rightarrow> bool" where
  "truthy v =
     (case v of
        None \<Rightarrow> False
      | Some JNull \<Rightarrow> False
      | Some (JBool b) \<Rightarrow> b
      | Some (JNum n) \<Rightarrow> n \<noteq> 0
      | Some (JStr s) \<Rightarrow> s \<noteq> []
      | Some (JArr _) \<Rightarrow> True
      | Some (JObj _) \<Rightarrow> True)"

definition get_named :: "json option \<Rightarrow> string \<Rightarrow> json option settled" where
  \<comment> \<open>\<^verbatim>\<open>v.k\<close> for a key that no built-in prototype defines: a TypeError on
      \<^verbatim>\<open>null\<close> and \<^verbatim>\<open>undefined\<close>, the own property of an object, \<^verbatim>\<open>undefined\<close> otherwise\<close>
  "get_named v k =
     (case v of
        None \<Rightarrow> Rejected
      | Some JNull \<Rightarrow> Rejected
      | Some (JObj kvs) \<Rightarrow> Fulfilled (map_of kvs k)
      | Some _ \<Rightarrow> Fulfilled None)"

definition get_index0 :: "json option \<Rightarrow> json option settled" where
  \<comment> \<open>\<^verbatim>\<open>v[0]\<close>: the first element of an array, the first character of a string, the
      property \<^verbatim>\<open>"0"\<close> of an object\<close>
  "get_index0 v =
     (case v of
        None \<Rightarrow> Rejected
      | Some JNull \<Rightarrow> Rejected
      | Some (JArr xs) \<Rightarrow> Fulfilled (case xs of [] \<Rightarrow> None | x # _ \<Rightarrow> Some x)
      | Some (JStr s) \<Rightarrow> Fulfilled (case s of [] \<Rightarrow> None | c # _ \<Rightarrow> Some (JStr [c]))
      | Some (JObj kvs) \<Rightarrow> Fulfilled (map_of kvs ''0'')
      | Some _ \<Rightarrow> Fulfilled None)"

definition opt_named :: "json option \<Rightarrow> string \<Rightarrow> json option" where
  \<comment> \<open>the optional chain \<^verbatim>\<open>v?.k\<close>: \<^verbatim>\<open>undefined\<close> on \<^verbatim>\<open>null\<close> and \<^verbatim>\<open>undefined\<close>\<close>
  "opt_named v k =
     (case v of
        None \<Rightarrow> None
      | Some JNull \<Rightarrow> None
      | Some (JObj kvs) \<Rightarrow> map_of kvs k
      | Some _ \<Rightarrow> None)"

definition reply_content :: "json \<Rightarrow> json option settled" where
  \<comment> \<open>\<^verbatim>\<open>data.choices[0]?.message?.content || ''\<close>\<close>
  "reply_content data =
     (case get_named (Some data) ''choices'' of
        Rejected \<Rightarrow> Rejected
      | Fulfilled choices \<Rightarrow>
          (case get_index0 choices of
             Rejected \<Rightarrow> Rejected
           | Fulfilled choice \<Rightarrow>
               (let content = opt_named (opt_named choice ''message'') ''content''
                in Fulfilled (if truthy content then content else Some (JStr [])))))"

definition match_braces :: "string \<Rightarrow> string option" where
  \<comment> \<open>\<^verbatim>\<open>s.match(/\{[\s\S]*\}/)\<close>: from the first opening brace to the last closing brace
      after it; \<open>None\<close> is the \<^verbatim>\<open>null\<close> of no match\<close>
  "match_braces s =
     (let rest = dropWhile (\<lambda>c. c \<noteq> CHR ''{'') s;
          m = rev (dropWhile (\<lambda>c. c \<noteq> CHR ''}'') (rev rest))
      in if m = [] then None else Some m)"

definition content_match :: "json option \<Rightarrow> string option settled" where
  \<comment> \<open>\<^verbatim>\<open>content.match(...)\<close>: only a string has the method; calling it on any other
      truthy value is a TypeError\<close>
  "content_match content =
     (case content of
        Some (JStr s) \<Rightarrow> Fulfilled (match_braces s)
      | _ \<Rightarrow> Rejected)"

subsection \<open>The prompt\<close>

definition newline :: string where
  "newline = [CHR 0x0A]"

definition dquote :: string where
  "dquote = [CHR 0x22]"

fun join :: "string \<Rightarrow> string list \<Rightarrow> string" where
  "join sep [] = []"
| "join sep [x] = x"
| "join sep (x # y # ys) = x @ sep @ join sep (y # ys)"

definition priority_text :: "Task \<Rightarrow> string" where
  \<comment> \<open>\<^verbatim>\<open>${t.priority}\<close>; a \<^verbatim>\<open>NULL\<close> column prints as \<^verbatim>\<open>null\<close>\<close>
  "priority_text t = (case priority t of None \<Rightarrow> ''null'' | Some p \<Rightarrow> p)"

definition prompt :: "Task list \<Rightarrow> Task list \<Rightarrow> Task list \<Rightarrow> string" where
  "prompt tasks completedTasks incompleteTasks =
     ''Analyze these task patterns and provide insights:'' @ newline @ newline
     @ ''Total tasks: '' @ string_of_nat (length tasks) @ newline
     @ ''Completed: '' @ string_of_nat (length completedTasks) @ newline
     @ ''In progress/Todo: '' @ string_of_nat (length incompleteTasks) @ newline @ newline
     @ ''Completed tasks:'' @ newline
     @ join newline
         (map (\<lambda>t. ''- '' @ title t @ '' (Priority: '' @ priority_text t @ '')'') completedTasks)
     @ newline @ newline
     @ ''Incomplete tasks:'' @ newline
     @ join newline
         (map (\<lambda>t. ''- '' @ title t @ '' (Status: '' @ status t @ '', Priority: ''
                    @ priority_text t @ '')'') incompleteTasks)
     @ newline @ newline
     @ ''Provide a JSON response with:'' @ newline
     @ ''1. '' @ dquote @ ''patterns'' @ dquote
     @ '': Array of 2-3 patterns you notice in task types or priorities'' @ newline
     @ ''2. '' @ dquote @ ''completionInsights'' @ dquote
     @ '': Array of 2-3 insights about what gets completed'' @ newline
     @ ''3. '' @ dquote @ ''failureReasons'' @ dquote
     @ '': Array of 2-3 possible reasons tasks aren'' @ [CHR 0x27] @ ''t completed'' @ newline
     @ ''4. '' @ dquote @ ''recommendations'' @ dquote
     @ '': Array of 2-3 actionable recommendations'' @ newline @ newline
     @ ''Keep each point concise (1 sentence). Focus on actionable insights.''"

subsection \<open>analyzeTasks\<close>

text \<open>
  The result is either an \<^typ>\<open>AnalysisResult\<close> the service built itself, or whatever JSON
  value the model's reply parsed to (the code returns it unchecked). The function also
  hands back the list of requests it sent with \<^verbatim>\<open>fetch\<close>. \<^verbatim>\<open>fetch\<close> and \<^verbatim>\<open>JSON.parse\<close>
  are parameters: \<open>fetch rq\<close> is what the network answers to \<open>rq\<close>, and
  \<open>JSON_parse s\<close> is \<open>None\<close> when \<^verbatim>\<open>JSON.parse(s)\<close> throws a SyntaxError.
\<close>

datatype Analysis = Computed AnalysisResult | Reply json

definition groqEndpoint :: string where
  "groqEndpoint = ''https://api.groq.com/openai/v1/chat/completions''"

definition done_tasks :: "Task list \<Rightarrow> Task list" where
  \<comment> \<open>\<^verbatim>\<open>tasks.filter(t => t.status === 'done')\<close>\<close>
  "done_tasks tasks = filter (\<lambda>t. status t = ''done'') tasks"

definition open_tasks :: "Task list \<Rightarrow> Task list" where
  \<comment> \<open>\<^verbatim>\<open>tasks.filter(t => t.status !== 'done')\<close>\<close>
  "open_tasks tasks = filter (\<lambda>t. status t \<noteq> ''done'') tasks"

definition groq_request :: "string \<Rightarrow> Task list \<Rightarrow> FetchRequest" where
  \<comment> \<open>the POST that \<^verbatim>\<open>fetch\<close> is called with\<close>
  "groq_request groqApiKey tasks =
     \<lparr>endpoint = groqEndpoint,
      authorization = ''Bearer '' @ groqApiKey,
      user_content = prompt tasks (done_tasks tasks) (open_tasks tasks)\<rparr>"

definition analyze_try ::
  "string \<Rightarrow> (FetchRequest \<Rightarrow> Response settled) \<Rightarrow> (string \<Rightarrow> json option) \<Rightarrow> Task list
     \<Rightarrow> FetchRequest list \<times> Analysis settled" where
  \<comment> \<open>the body of the \<^verbatim>\<open>try\<close> block; \<open>Rejected\<close> is an exception leaving it\<close>
  "analyze_try groqApiKey fetch JSON_parse tasks =
     (let completedTasks = done_tasks tasks;
          incompleteTasks = open_tasks tasks;
          basic = Computed (basicAnalysis tasks completedTasks incompleteTasks)
      in if groqApiKey = [] then ([], Fulfilled basic)
         else
           let rq = groq_request groqApiKey tasks
           in case fetch rq of
                Rejected \<Rightarrow> ([rq], Rejected)
              | Fulfilled response \<Rightarrow>
                  if \<not> resp_ok response
                  then (case resp_text response of
                          Rejected \<Rightarrow> ([rq], Rejected)
                        | Fulfilled _ \<Rightarrow> ([rq], Fulfilled basic))
                  else
                    (case resp_json response of
                       Rejected \<Rightarrow> ([rq], Rejected)
                     | Fulfilled data \<Rightarrow>
                         (case reply_content data of
                            Rejected \<Rightarrow> ([rq], Rejected)
                          | Fulfilled content \<Rightarrow>
                              (case content_match content of
                                 Rejected \<Rightarrow> ([rq], Rejected)
                               | Fulfilled None \<Rightarrow> ([rq], Fulfilled basic)
                               | Fulfilled (Some jsonMatch) \<Rightarrow>
                                   (case JSON_parse jsonMatch of
                                      None \<Rightarrow> ([rq], Rejected)
                                    | Some analysis \<Rightarrow> ([rq], Fulfilled (Reply analysis)))))))"

definition analyzeTasks ::
  "string \<Rightarrow> (FetchRequest \<Rightarrow> Response settled) \<Rightarrow> (string \<Rightarrow> json option) \<Rightarrow> Task list
     \<Rightarrow> FetchRequest list \<times> Analysis" where
  "analyzeTasks groqApiKey fetch JSON_parse tasks =
     (if length tasks = 0
      then ([], Computed
             \<lparr>patterns = [''No tasks to analyze yet''],
              completionInsights = [''Start adding tasks to get insights''],
              failureReasons = [],
              recommendations = [''Create your first task to begin tracking your productivity'']\<rparr>)
      else
        (case analyze_try groqApiKey fetch JSON_parse tasks of
           (sent, Fulfilled analysis) \<Rightarrow> (sent, analysis)
         | (sent, Rejected) \<Rightarrow>
             (sent, Computed (basicAnalysis tasks (done_tasks tasks) (open_tasks tasks)))))"

subsection \<open>The ways the external call can fail\<close>

definition missing_credential :: "string \<Rightarrow> bool" where
  "missing_credential groqApiKey = (groqApiKey = [])"

definition network_error :: "(FetchRequest \<Rightarrow> Response settled) \<Rightarrow> FetchRequest \<Rightarrow> bool" where
  "network_error fetch rq = (fetch rq = Rejected)"

definition non_success :: "(FetchRequest \<Rightarrow> Response settled) \<Rightarrow> FetchRequest \<Rightarrow> bool" where
  "non_success fetch rq =
     (case fetch rq of Rejected \<Rightarrow> False | Fulfilled response \<Rightarrow> \<not> resp_ok response)"

definition usable_reply :: "(string \<Rightarrow> json option) \<Rightarrow> Response \<Rightarrow> json option" where
  \<comment> \<open>the JSON value inside a successful response: the body is JSON, the content of its
      first choice is a string, the text from its first opening brace to its last closing
      brace parses\<close>
  "usable_reply JSON_parse response =
     (case resp_json response of
        Rejected \<Rightarrow> None
      | Fulfilled data \<Rightarrow>
          (case reply_content data of
             Fulfilled (Some (JStr s)) \<Rightarrow>
               (case match_braces s of None \<Rightarrow> None | Some m \<Rightarrow> JSON_parse m)
           | _ \<Rightarrow> None))"

definition no_parseable_json ::
  "(FetchRequest \<Rightarrow> Response settled) \<Rightarrow> (string \<Rightarrow> json option) \<Rightarrow> FetchRequest \<Rightarrow> bool" where
  "no_parseable_json fetch JSON_parse rq =
     (case fetch rq of
        Rejected \<Rightarrow> False
      | Fulfilled response \<Rightarrow> resp_ok response \<and> usable_reply JSON_parse response = None)"

definition call_failed ::
  "string \<Rightarrow> (FetchRequest \<Rightarrow> Response settled) \<Rightarrow> (string \<Rightarrow> json option) \<Rightarrow> Task list
     \<Rightarrow> bool" where
  "call_failed groqApiKey fetch JSON_parse tasks =
     (missing_credential groqApiKey
      \<or> network_error fetch (groq_request groqApiKey tasks)
      \<or> non_success fetch (groq_request groqApiKey tasks)
      \<or> no_parseable_json fetch JSON_parse (groq_request groqApiKey tasks))"

section \<open>The task store (database.ts)\<close>

text \<open>
  The \<^verbatim>\<open>tasks\<close> table is the list of its rows in rowid order, together with the counter
  that \<^verbatim>\<open>AUTOINCREMENT\<close> keeps (the largest id handed out so far). The current instant is a
  parameter of every operation that reads the clock.
\<close>

record store =
  rows :: "Task list"
  seq :: nat

definition initial :: store where
  "initial = \<lparr>rows = [], seq = 0\<rparr>"

definition CURRENT_TIMESTAMP :: "nat \<Rightarrow> nat" where
  \<comment> \<open>SQLite stamps whole seconds\<close>
  "CURRENT_TIMESTAMP now = now - now mod 1000"

definition toISOString :: "nat \<Rightarrow> nat" where
  \<comment> \<open>\<^verbatim>\<open>new Date().toISOString()\<close> keeps the milliseconds\<close>
  "toISOString now = now"

definition date_of :: "nat \<Rightarrow> nat" where
  \<comment> \<open>SQL \<^verbatim>\<open>date(t)\<close>: the calendar day (UTC) of an instant, as a day number\<close>
  "date_of t = t div 86400000"

subsection \<open>\<^verbatim>\<open>ORDER BY\<close>\<close>

text \<open>
  Rows are put in order by insertion from the right, where \<open>le a b\<close> says that \<open>a\<close> may
  stand before \<open>b\<close>. Rows that the ordering does not separate keep their rowid order (SQL
  leaves their order open).
\<close>

fun insert_by :: "('a \<Rightarrow> 'a \<Rightarrow> bool) \<Rightarrow> 'a \<Rightarrow> 'a list \<Rightarrow> 'a list" where
  "insert_by le x [] = [x]"
| "insert_by le x (y # ys) = (if le x y then x # y # ys else y # insert_by le x ys)"

definition order_by :: "('a \<Rightarrow> 'a \<Rightarrow> bool) \<Rightarrow> 'a list \<Rightarrow> 'a list" where
  "order_by le xs = foldr (insert_by le) xs []"

definition position_then_newest :: "Task \<Rightarrow> Task \<Rightarrow> bool" where
  \<comment> \<open>\<^verbatim>\<open>ORDER BY position ASC, created_at DESC\<close>\<close>
  "position_then_newest t u =
     (position t < position u \<or> (position t = position u \<and> created_at u \<le> created_at t))"

subsection \<open>taskQueries\<close>

definition getAll :: "store \<Rightarrow> Task list" where
  \<comment> \<open>\<^verbatim>\<open>SELECT * FROM tasks ORDER BY position ASC, created_at DESC\<close>\<close>
  "getAll st = order_by position_then_newest (rows st)"

definition getById :: "store \<Rightarrow> nat \<Rightarrow> Task option" where
  \<comment> \<open>\<^verbatim>\<open>SELECT * FROM tasks WHERE id = ?\<close>, first row or \<^verbatim>\<open>undefined\<close>\<close>
  "getById st i = find (\<lambda>t. task_id t = i) (rows st)"

definition create ::
  "nat \<Rightarrow> string \<Rightarrow> string option \<Rightarrow> string \<Rightarrow> string option \<Rightarrow> int \<Rightarrow> store \<Rightarrow> nat \<times> store" where
  \<comment> \<open>\<^verbatim>\<open>INSERT INTO tasks (title, description, status, priority, position) VALUES (...)\<close>;
      the id is the next of the sequence, \<^verbatim>\<open>created_at\<close> defaults to the current timestamp,
      \<^verbatim>\<open>completed_at\<close> to \<^verbatim>\<open>NULL\<close>. Returns \<^verbatim>\<open>lastInsertRowid\<close>.\<close>
  "create now ttl descr stat prio pos st =
     (let i = seq st + 1
      in (i, \<lparr>rows = rows st @
                 [\<lparr>task_id = i, title = ttl, description = descr, status = stat,
                   priority = prio, created_at = CURRENT_TIMESTAMP now, completed_at = None,
                   position = pos\<rparr>],
               seq = i\<rparr>))"

definition update ::
  "string \<Rightarrow> string option \<Rightarrow> string \<Rightarrow> string option \<Rightarrow> nat option \<Rightarrow> nat \<Rightarrow> store \<Rightarrow> store" where
  \<comment> \<open>\<^verbatim>\<open>UPDATE tasks SET title = ?, description = ?, status = ?, priority = ?,
      completed_at = ? WHERE id = ?\<close>\<close>
  "update ttl descr stat prio completed i st =
     st\<lparr>rows := map (\<lambda>t. if task_id t = i
                           then t\<lparr>title := ttl, description := descr, status := stat,
                                  priority := prio, completed_at := completed\<rparr>
                           else t) (rows st)\<rparr>"

definition updatePosition :: "int \<Rightarrow> nat \<Rightarrow> store \<Rightarrow> store" where
  \<comment> \<open>\<^verbatim>\<open>UPDATE tasks SET position = ? WHERE id = ?\<close>\<close>
  "updatePosition pos i st =
     st\<lparr>rows := map (\<lambda>t. if task_id t = i then t\<lparr>position := pos\<rparr> else t) (rows st)\<rparr>"

definition delete :: "nat \<Rightarrow> store \<Rightarrow> store" where
  \<comment> \<open>\<^verbatim>\<open>DELETE FROM tasks WHERE id = ?\<close>\<close>
  "delete i st = st\<lparr>rows := filter (\<lambda>t. task_id t \<noteq> i) (rows st)\<rparr>"

subsection \<open>Binding parameters (the better-sqlite3 driver)\<close>

text \<open>
  \<^verbatim>\<open>stmt.run(...)\<close> binds its arguments to the anonymous parameters of the statement, in
  order. A number, a string, \<^verbatim>\<open>null\<close> and \<^verbatim>\<open>undefined\<close> bind as one value each. An array
  binds each of its elements in turn. A plain object binds the named parameters of the
  statement, of which the statements here have none. A boolean is a TypeError, and so are
  an array or an object inside an array, and a second plain object. When the number of
  values bound is not the number of parameters the driver throws a RangeError. Nothing is
  written when it throws.
\<close>

datatype sqlval = SqlNull | SqlReal rat | SqlText string

fun all_some :: "'a option list \<Rightarrow> 'a list option" where
  "all_some [] = Some []"
| "all_some (None # xs) = None"
| "all_some (Some x # xs) = map_option ((#) x) (all_some xs)"

definition bind_value :: "json option \<Rightarrow> sqlval option" where
  "bind_value v =
     (case v of
        None \<Rightarrow> Some SqlNull
      | Some JNull \<Rightarrow> Some SqlNull
      | Some (JNum n) \<Rightarrow> Some (SqlReal n)
      | Some (JStr s) \<Rightarrow> Some (SqlText s)
      | Some _ \<Rightarrow> None)"

definition bind_argument :: "json option \<Rightarrow> sqlval list option" where
  "bind_argument v =
     (case v of
        Some (JArr xs) \<Rightarrow> all_some (map (\<lambda>x. bind_value (Some x)) xs)
      | Some (JObj _) \<Rightarrow> Some []
      | _ \<Rightarrow> map_option (\<lambda>x. [x]) (bind_value v))"

definition is_plain_object :: "json option \<Rightarrow> bool" where
  "is_plain_object v = (case v of Some (JObj _) \<Rightarrow> True | _ \<Rightarrow> False)"

definition bind :: "json option list \<Rightarrow> sqlval list option" where
  \<comment> \<open>the values bound by the arguments, \<open>None\<close> for a TypeError\<close>
  "bind args =
     (if 1 < length (filter is_plain_object args) then None
      else map_option concat (all_some (map bind_argument args)))"

text \<open>
  The columns \<^verbatim>\<open>title\<close>, \<^verbatim>\<open>description\<close>, \<^verbatim>\<open>status\<close> and \<^verbatim>\<open>priority\<close> have \<^verbatim>\<open>TEXT\<close> affinity:
  a number is stored as its text, which SQLite computes; that conversion is the parameter
  \<open>real_text\<close>. \<^verbatim>\<open>title\<close> and \<^verbatim>\<open>status\<close> are \<^verbatim>\<open>NOT NULL\<close>: a \<^verbatim>\<open>NULL\<close> for either fails the
  statement.
\<close>

definition text_affinity :: "(rat \<Rightarrow> string) \<Rightarrow> sqlval \<Rightarrow> string option" where
  "text_affinity real_text v =
     (case v of
        SqlNull \<Rightarrow> None
      | SqlReal n \<Rightarrow> Some (real_text n)
      | SqlText s \<Rightarrow> Some s)"

fun not_null_columns ::
  "string option list \<Rightarrow> (string \<times> string option \<times> string \<times> string option) option" where
  "not_null_columns [Some ttl, descr, Some stat, prio] = Some (ttl, descr, stat, prio)"
| "not_null_columns cs = None"

definition text_columns ::
  "(rat \<Rightarrow> string) \<Rightarrow> json option list
     \<Rightarrow> (string \<times> string option \<times> string \<times> string option) option" where
  \<comment> \<open>what the four leading arguments of \<^verbatim>\<open>create.run\<close> and of \<^verbatim>\<open>update.run\<close> store in
      the four text columns. The arguments after them (the position; the completion stamp
      and the id) bind one value each, so the statement runs only when these four bind
      exactly four values. \<open>None\<close>: the driver or the statement throws.\<close>
  "text_columns real_text args =
     (case bind args of
        None \<Rightarrow> None
      | Some vs \<Rightarrow>
          if length vs = 4 then not_null_columns (map (text_affinity real_text) vs)
          else None)"

subsection \<open>analyticsQueries\<close>

record DailyAnalytics =
  date :: nat
  total_tasks :: nat
  completed_tasks :: nat
  completion_rate :: rat

definition group_row :: "nat \<Rightarrow> Task list \<Rightarrow> DailyAnalytics" where
  \<comment> \<open>the select list over one non-empty group: \<^verbatim>\<open>COUNT(*)\<close>,
      \<^verbatim>\<open>SUM(CASE WHEN status = 'done' THEN 1 ELSE 0 END)\<close> and
      \<^verbatim>\<open>CAST(SUM(...) AS REAL) / COUNT(*) * 100\<close>\<close>
  "group_row d ts =
     (let total = length ts;
          completed = length (filter (\<lambda>t. status t = ''done'') ts)
      in \<lparr>date = d, total_tasks = total, completed_tasks = completed,
          completion_rate = js_mul (js_div (of_nat completed) (of_nat total)) 100\<rparr>)"

definition group_by_date :: "Task list \<Rightarrow> (nat \<times> Task list) list" where
  \<comment> \<open>\<^verbatim>\<open>GROUP BY date(created_at)\<close>: one group for each date that occurs\<close>
  "group_by_date ts =
     map (\<lambda>d. (d, filter (\<lambda>t. date_of (created_at t) = d) ts))
       (remdups (map (\<lambda>t. date_of (created_at t)) ts))"

definition getDailyStats :: "store \<Rightarrow> nat \<Rightarrow> DailyAnalytics option" where
  \<comment> \<open>\<^verbatim>\<open>... WHERE date(created_at) = date(?) GROUP BY date(created_at)\<close>, first row or
      \<^verbatim>\<open>undefined\<close>\<close>
  "getDailyStats st d =
     (case group_by_date (filter (\<lambda>t. date_of (created_at t) = d) (rows st)) of
        [] \<Rightarrow> None
      | (d', ts) # _ \<Rightarrow> Some (group_row d' ts))"

definition getWeeklyStats :: "nat \<Rightarrow> store \<Rightarrow> DailyAnalytics list" where
  \<comment> \<open>\<^verbatim>\<open>... WHERE date(created_at) >= date('now', '-7 days') GROUP BY date(created_at)
      ORDER BY date DESC\<close>\<close>
  "getWeeklyStats now st =
     order_by (\<lambda>a b. date b \<le> date a)
       (map (\<lambda>(d, ts). group_row d ts)
          (group_by_date (filter (\<lambda>t. date_of now - 7 \<le> date_of (created_at t)) (rows st))))"

section \<open>The HTTP handlers (index.ts)\<close>

text \<open>
  A handler answers with a status and a payload. The \<^verbatim>\<open>catch\<close> branches answer 500 when
  the driver or the statement throws.
\<close>

datatype 'a reply =
    Ok 'a
  | Created 'a
  | BadRequest string
  | NotFound string
  | ServerError string

text \<open>
  The JSON body of POST and PUT as the handlers destructure it: each of \<^verbatim>\<open>title\<close>,
  \<^verbatim>\<open>description\<close>, \<^verbatim>\<open>status\<close> and \<^verbatim>\<open>priority\<close> is any JSON value or absent (\<open>None\<close> is
  \<^verbatim>\<open>undefined\<close>); \<^verbatim>\<open>position\<close> is a number or absent.
\<close>

record TaskBody =
  b_title :: "json option"
  b_description :: "json option"
  b_status :: "json option"
  b_priority :: "json option"
  b_position :: "int option"

definition js_text :: "string option \<Rightarrow> json option" where
  \<comment> \<open>a text column read back from a row: a string, or \<^verbatim>\<open>null\<close>\<close>
  "js_text c = (case c of None \<Rightarrow> Some JNull | Some s \<Rightarrow> Some (JStr s))"

definition post_tasks ::
  "(rat \<Rightarrow> string) \<Rightarrow> nat \<Rightarrow> TaskBody \<Rightarrow> store \<Rightarrow> Task option reply \<times> store" where
  \<comment> \<open>\<^verbatim>\<open>app.post('/api/tasks', ...)\<close>\<close>
  "post_tasks real_text now body st =
     (let stat = (case b_status body of None \<Rightarrow> Some (JStr ''todo'') | Some s \<Rightarrow> Some s);
          prio = (case b_priority body of None \<Rightarrow> Some (JStr ''medium'') | Some p \<Rightarrow> Some p);
          pos = (case b_position body of None \<Rightarrow> 0 | Some p \<Rightarrow> p)
      in if \<not> truthy (b_title body) then (BadRequest ''Title is required'', st)
         else
           case text_columns real_text [b_title body, b_description body, stat, prio] of
             None \<Rightarrow> (ServerError ''Failed to create task'', st)
           | Some (ttl, descr, stat', prio') \<Rightarrow>
               let (lastInsertRowid, st') = create now ttl descr stat' prio' pos st
               in (Created (getById st' lastInsertRowid), st'))"

definition put_tasks ::
  "(rat \<Rightarrow> string) \<Rightarrow> nat \<Rightarrow> nat \<Rightarrow> TaskBody \<Rightarrow> store \<Rightarrow> Task option reply \<times> store" where
  \<comment> \<open>\<^verbatim>\<open>app.put('/api/tasks/:id', ...)\<close>\<close>
  "put_tasks real_text now i body st =
     (case getById st i of
        None \<Rightarrow> (NotFound ''Task not found'', st)
      | Some existingTask \<Rightarrow>
          let completed =
                (if b_status body = Some (JStr ''done'') \<and> status existingTask \<noteq> ''done''
                 then Some (toISOString now)
                 else completed_at existingTask)
          in case text_columns real_text
                    [if truthy (b_title body) then b_title body
                     else Some (JStr (title existingTask)),
                     if b_description body \<noteq> None then b_description body
                     else js_text (description existingTask),
                     if truthy (b_status body) then b_status body
                     else Some (JStr (status existingTask)),
                     if truthy (b_priority body) then b_priority body
                     else js_text (priority existingTask)] of
               None \<Rightarrow> (ServerError ''Failed to update task'', st)
             | Some (ttl, descr, stat, prio) \<Rightarrow>
                 let st' = update ttl descr stat prio completed i st
                 in (Ok (getById st' i), st'))"

text \<open>
  The \<^verbatim>\<open>tasks\<close> field of a reorder request: an array of \<^verbatim>\<open>{id, position}\<close> objects with
  numeric fields, or any value that \<^verbatim>\<open>Array.isArray\<close> rejects (absent, \<^verbatim>\<open>null\<close>, a
  number, a string, an object).
\<close>

datatype ReorderTasks = NotAnArray | TaskArray "(nat \<times> int) list"

definition patch_reorder :: "ReorderTasks \<Rightarrow> store \<Rightarrow> unit reply \<times> store" where
  \<comment> \<open>\<^verbatim>\<open>app.patch('/api/tasks/reorder', ...)\<close>\<close>
  "patch_reorder tasks st =
     (case tasks of
        NotAnArray \<Rightarrow> (BadRequest ''Tasks array is required'', st)
      | TaskArray entries \<Rightarrow>
          (Ok (), foldl (\<lambda>s (i, pos). updatePosition pos i s) st entries))"

definition delete_tasks :: "nat \<Rightarrow> store \<Rightarrow> unit reply \<times> store" where
  \<comment> \<open>\<^verbatim>\<open>app.delete('/api/tasks/:id', ...)\<close>\<close>
  "delete_tasks i st =
     (case getById st i of
        None \<Rightarrow> (NotFound ''Task not found'', st)
      | Some _ \<Rightarrow> (Ok (), delete i st))"

definition get_tasks :: "store \<Rightarrow> Task list reply" where
  \<comment> \<open>\<^verbatim>\<open>app.get('/api/tasks', ...)\<close>\<close>
  "get_tasks st = Ok (getAll st)"

definition get_daily :: "nat \<Rightarrow> nat option \<Rightarrow> store \<Rightarrow> DailyAnalytics reply" where
  \<comment> \<open>\<^verbatim>\<open>app.get('/api/analytics/daily', ...)\<close>; without a \<^verbatim>\<open>date\<close> parameter the date is
      today's\<close>
  "get_daily now query_date st =
     (let d = (case query_date of None \<Rightarrow> date_of now | Some q \<Rightarrow> q)
      in case getDailyStats st d of
           Some stats \<Rightarrow> Ok stats
         | None \<Rightarrow> Ok \<lparr>date = d, total_tasks = 0, completed_tasks = 0, completion_rate = 0\<rparr>)"

definition get_weekly :: "nat \<Rightarrow> store \<Rightarrow> DailyAnalytics list reply" where
  \<comment> \<open>\<^verbatim>\<open>app.get('/api/analytics/weekly', ...)\<close>\<close>
  "get_weekly now st = Ok (getWeeklyStats now st)"

subsection \<open>Histories\<close>

text \<open>
  The requests that change the table, each served at an instant. A history is served in
  order, starting from the empty table.
\<close>

datatype request =
    PostTask TaskBody
  | PutTask nat TaskBody
  | PatchReorder ReorderTasks
  | DeleteTask nat

definition serve :: "(rat \<Rightarrow> string) \<Rightarrow> nat \<Rightarrow> request \<Rightarrow> store \<Rightarrow> store" where
  "serve real_text now rq st =
     (case rq of
        PostTask body \<Rightarrow> snd (post_tasks real_text now body st)
      | PutTask i body \<Rightarrow> snd (put_tasks real_text now i body st)
      | PatchReorder tasks \<Rightarrow> snd (patch_reorder tasks st)
      | DeleteTask i \<Rightarrow> snd (delete_tasks i st))"

fun run :: "(rat \<Rightarrow> string) \<Rightarrow> store \<Rightarrow> (nat \<times> request) list \<Rightarrow> store" where
  "run real_text st [] = st"
| "run real_text st ((now, rq) # rest) = run real_text (serve real_text now rq st) rest"

definition served_by :: "nat \<Rightarrow> (nat \<times> request) list \<Rightarrow> bool" where
  \<comment> \<open>every request of the history was served at or before the instant \<open>now\<close>\<close>
  "served_by now history = list_all (\<lambda>(served, rq). served \<le> now) history"

definition occurs_before :: "'a \<Rightarrow> 'a \<Rightarrow> 'a list \<Rightarrow> bool" where
  \<comment> \<open>\<open>b\<close> occurs somewhere after the first \<open>a\<close>\<close>
  "occurs_before a b xs = (b \<in> set (drop 1 (dropWhile (\<lambda>x. x \<noteq> a) xs)))"

subsection \<open>Properties of a table\<close>

definition titled :: "store \<Rightarrow> bool" where
  \<comment> \<open>no row has an empty title\<close>
  "titled st = list_all (\<lambda>t. title t \<noteq> []) (rows st)"

definition is_text :: "json option \<Rightarrow> bool" where
  \<comment> \<open>a string, or absent\<close>
  "is_text v = (case v of None \<Rightarrow> True | Some (JStr s) \<Rightarrow> True | Some _ \<Rightarrow> False)"


definition text_title :: "request \<Rightarrow> bool" where
  \<comment> \<open>the title of a create or update request is a string, or absent\<close>
  "text_title rq =
     (case rq of
        PostTask body \<Rightarrow> is_text (b_title body)
      | PutTask i body \<Rightarrow> is_text (b_title body)
      | PatchReorder tasks \<Rightarrow> True
      | DeleteTask i \<Rightarrow> True)"

definition text_titles :: "(nat \<times> request) list \<Rightarrow> bool" where
  "text_titles history = list_all (\<lambda>(served, rq). text_title rq) history"

definition created_by :: "nat \<Rightarrow> store \<Rightarrow> bool" where
  \<comment> \<open>no row carries a creation stamp later than \<open>now\<close>\<close>
  "created_by now st = list_all (\<lambda>t. created_at t \<le> now) (rows st)"

definition week_rows :: "nat \<Rightarrow> store \<Rightarrow> Task list" where
  \<comment> \<open>the rows that the weekly query's \<^verbatim>\<open>WHERE\<close> keeps\<close>
  "week_rows now st = filter (\<lambda>t. date_of now - 7 \<le> date_of (created_at t)) (rows st)"

definition week_groups :: "nat \<Rightarrow> store \<Rightarrow> DailyAnalytics list" where
  \<comment> \<open>the weekly query's result rows before \<^verbatim>\<open>ORDER BY\<close>\<close>
  "week_groups now st = map (\<lambda>(d, ts). group_row d ts) (group_by_date (week_rows now st))"

section \<open>Sample data\<close>

definition sample_task :: "nat \<Rightarrow> string \<Rightarrow> string \<Rightarrow> nat \<Rightarrow> int \<Rightarrow> Task" where
  "sample_task i s p c pos =
     \<lparr>task_id = i, title = ''Write report'', description = None, status = s,
      priority = Some p, created_at = c, completed_at = None, position = pos\<rparr>"

definition sample_store :: store where
  "sample_store =
     \<lparr>rows = [sample_task 1 ''todo'' ''medium'' 1000 0,
              sample_task 2 ''done'' ''high'' 86402000 0],
      seq = 2\<rparr>"

definition sample_body :: TaskBody where
  "sample_body =
     \<lparr>b_title = Some (JStr ''Write report''), b_description = None, b_status = None,
      b_priority = None, b_position = None\<rparr>"

definition sample_history :: "(nat \<times> request) list" where
  "sample_history =
     [(1500, PostTask sample_body),
      (2700, PostTask (sample_body\<lparr>b_title := Some (JStr ''Call bank''),
                                    b_priority := Some (JStr ''high'')\<rparr>)),
      (3000, PatchReorder (TaskArray [(1, 2), (2, 0)]))]"


definition blank_title :: TaskBody where
  \<comment> \<open>the body \<^verbatim>\<open>{"title": ""}\<close>\<close>
  "blank_title =
     \<lparr>b_title = Some (JStr []), b_description = None, b_status = None, b_priority = None,
      b_position = None\<rparr>"

definition array_title :: TaskBody where
  \<comment> \<open>the body \<^verbatim>\<open>{"title": [""]}\<close>\<close>
  "array_title =
     \<lparr>b_title = Some (JArr [JStr []]), b_description = None, b_status = None,
      b_priority = None, b_position = None\<rparr>"

definition sample_real_text :: "rat \<Rightarrow> string" where
  \<comment> \<open>stands for SQLite's conversion where a sample binds no number\<close>
  "sample_real_text n = ''0.0''"

definition sample_reply :: json where
  "sample_reply =
     JObj [(''choices'',
            JArr [JObj [(''message'',
                         JObj [(''content'', JStr ''Sorry, I cannot help with that.'')])]])]"

definition sample_response :: Response where
  "sample_response =
     \<lparr>resp_ok = True, resp_text = Fulfilled ''...'', resp_json = Fulfilled sample_reply\<rparr>"

definition tied_tasks :: "Task list" where
  "tied_tasks =
     [sample_task 1 ''todo'' ''low'' 1000 0,
      sample_task 2 ''todo'' ''medium'' 2000 1,
      sample_task 3 ''done'' ''low'' 3000 2,
      sample_task 4 ''todo'' ''medium'' 4000 3,
      sample_task 5 ''todo'' ''high'' 5000 4]"

definition half_done_tasks :: "Task list" where
  \<comment> \<open>101 tasks, the first 50 of them done\<close>
  "half_done_tasks =
     map (\<lambda>i. sample_task i (if i \<le> 50 then ''done'' else ''todo'') ''medium'' (1000 * i) 0)
       [1..<102]"

definition good_response :: Response where
  "good_response =
     \<lparr>resp_ok = True, resp_text = Fulfilled ''...'',
      resp_json = Fulfilled
        (JObj [(''choices'',
                JArr [JObj [(''message'', JObj [(''content'', JStr ''Here you go: {} Bye'')])]])])\<rparr>"

definition parse_empty_object :: "string \<Rightarrow> json option" where
  \<comment> \<open>\<^verbatim>\<open>JSON.parse\<close> as far as the sample needs it\<close>
  "parse_empty_object s = (if s = ''{}'' then Some (JObj []) else None)"

section \<open>The empty task list\<close>

text \<open>
  C3. \<^verbatim>\<open>analyzeTasks\<close> applied to the empty task list returns exactly the four fixed
  placeholder lists, whatever the API key, the network and the parser are, and sends no
  request.
\<close>

theorem analyze_empty:
  "analyzeTasks groqApiKey fetch JSON_parse [] =
     ([], Computed
           \<lparr>patterns = [''No tasks to analyze yet''],
            completionInsights = [''Start adding tasks to get insights''],
            failureReasons = [],
            recommendations = [''Create your first task to begin tracking your productivity'']\<rparr>)"
  by (simp add: analyzeTasks_def)

section \<open>Daily statistics\<close>

lemma group_by_date_Nil: "group_by_date [] = []"
  by (simp add: group_by_date_def)

lemma getDailyStats_none:
  assumes "\<forall>t\<in>set (rows st). date_of (created_at t) \<noteq> d"
  shows "getDailyStats st d = None"
proof -
  have "filter (\<lambda>t. date_of (created_at t) = d) (rows st) = []"
    using assms by (simp add: filter_empty_conv)
  then show ?thesis
    by (simp add: getDailyStats_def group_by_date_Nil)
qed

text \<open>
  C8. When no task was created on the date asked for (the \<^verbatim>\<open>date\<close> parameter, or today
  when it is absent), the daily endpoint answers 200 with the zero record for that date:
  the query yields no row and the handler substitutes the record.
\<close>

theorem daily_zero_record:
  assumes "d = (case query_date of None \<Rightarrow> date_of now | Some q \<Rightarrow> q)"
    and "\<forall>t\<in>set (rows st). date_of (created_at t) \<noteq> d"
  shows "get_daily now query_date st =
           Ok \<lparr>date = d, total_tasks = 0, completed_tasks = 0, completion_rate = 0\<rparr>"
  using assms getDailyStats_none [of st d] by (simp add: get_daily_def)

theorem daily_zero_record_witness:
  "(3::nat) = (case Some 3 of None \<Rightarrow> date_of 0 | Some q \<Rightarrow> q)
   \<and> list_all (\<lambda>t. date_of (created_at t) \<noteq> 3) (rows sample_store)
   \<and> get_daily 0 (Some 3) sample_store =
       Ok \<lparr>date = 3, total_tasks = 0, completed_tasks = 0, completion_rate = 0\<rparr>"
  using daily_zero_record [where d = 3 and query_date = "Some 3" and now = 0
      and st = sample_store]
  by (simp add: sample_store_def sample_task_def date_of_def)

section \<open>Reordering\<close>

lemma rows_updatePosition:
  "rows (updatePosition pos i st) =
     map (\<lambda>t. if task_id t = i then t\<lparr>position := pos\<rparr> else t) (rows st)"
  by (simp add: updatePosition_def)




lemma rows_reorder:
  "rows (foldl (\<lambda>s (i, pos). updatePosition pos i s) st entries) =
     map (\<lambda>t. case map_of (rev entries) (task_id t) of
                 None \<Rightarrow> t
               | Some pos \<Rightarrow> t\<lparr>position := pos\<rparr>) (rows st)"
proof (induction entries rule: rev_induct)
  case Nil
  show ?case by simp
next
  case (snoc e entries)
  obtain i pos where e: "e = (i, pos)" by (cases e)
  show ?case
    by (simp add: e snoc.IH rows_updatePosition split: option.splits)
qed



section \<open>Listing after a reorder\<close>

lemma set_insert_by: "set (insert_by le x xs) = insert x (set xs)"
  by (induction xs) auto

lemma set_order_by: "set (order_by le xs) = set xs"
  by (induction xs) (auto simp: order_by_def set_insert_by)

lemma sorted_insert_by:
  assumes total: "\<And>a b. le a b \<or> le b a"
    and trans: "\<And>a b c. le a b \<Longrightarrow> le b c \<Longrightarrow> le a c"
  shows "sorted_wrt le xs \<Longrightarrow> sorted_wrt le (insert_by le x xs)"
proof (induction xs)
  case Nil
  show ?case by simp
next
  case (Cons y ys)
  show ?case
  proof (cases "le x y")
    case True
    then have "\<forall>z\<in>set ys. le x z"
      using Cons.prems trans by auto
    with True Cons.prems show ?thesis by simp
  next
    case False
    then have "le y x" using total by blast
    with False Cons show ?thesis by (auto simp: set_insert_by)
  qed
qed

lemma sorted_order_by:
  assumes "\<And>a b. le a b \<or> le b a"
    and "\<And>a b c. le a b \<Longrightarrow> le b c \<Longrightarrow> le a c"
  shows "sorted_wrt le (order_by le xs)"
proof (induction xs)
  case Nil
  show ?case by (simp add: order_by_def)
next
  case (Cons x xs)
  have "order_by le (x # xs) = insert_by le x (order_by le xs)"
    by (simp add: order_by_def)
  with Cons sorted_insert_by [of le "order_by le xs" x] assms show ?case
    by metis
qed

lemma distinct_map_insert_by:
  "distinct (map f (insert_by le x xs)) \<longleftrightarrow> f x \<notin> f ` set xs \<and> distinct (map f xs)"
  by (induction xs) (auto simp: set_insert_by)

lemma distinct_map_order_by:
  "distinct (map f (order_by le xs)) \<longleftrightarrow> distinct (map f xs)"
  by (induction xs) (auto simp: order_by_def distinct_map_insert_by set_order_by [unfolded order_by_def])

lemma occurs_before_sorted:
  assumes "sorted_wrt le xs" "distinct (map f xs)" "x \<in> set xs" "y \<in> set xs"
    and "\<not> le y x" "x \<noteq> y"
  shows "occurs_before (f x) (f y) (map f xs)"
  using assms
proof (induction xs)
  case Nil
  then show ?case by simp
next
  case (Cons z zs)
  show ?case
  proof (cases "z = x")
    case True
    with Cons.prems show ?thesis by (auto simp: occurs_before_def)
  next
    case False
    have "z \<noteq> y" using Cons.prems False by auto
    moreover have "f z \<noteq> f x" using Cons.prems False by auto
    ultimately show ?thesis
      using Cons False by (auto simp: occurs_before_def)
  qed
qed

lemma position_then_newest_total: "position_then_newest a b \<or> position_then_newest b a"
  by (auto simp: position_then_newest_def)

lemma position_then_newest_trans:
  "position_then_newest a b \<Longrightarrow> position_then_newest b c \<Longrightarrow> position_then_newest a c"
  by (auto simp: position_then_newest_def)

lemma sorted_getAll: "sorted_wrt position_then_newest (getAll st)"
  unfolding getAll_def
proof (rule sorted_order_by)
  show "position_then_newest a b \<or> position_then_newest b a" for a b
    by (rule position_then_newest_total)
  show "position_then_newest a b \<Longrightarrow> position_then_newest b c \<Longrightarrow> position_then_newest a c"
    for a b c
    by (rule position_then_newest_trans)
qed

text \<open>
  C7. In a table whose ids are distinct (\<^verbatim>\<open>id\<close> is the primary key) and that holds the
  tasks \<open>A\<close> and \<open>B\<close>, reordering with \<open>A\<close> at position 2 and \<open>B\<close> at position 0 and then
  listing all tasks yields \<open>B\<close> before \<open>A\<close>, since the list is ordered by position first.
\<close>

theorem reorder_then_listAll:
  assumes pk: "distinct (map task_id (rows st))"
    and A: "A \<in> set (map task_id (rows st))"
    and B: "B \<in> set (map task_id (rows st))"
    and AB: "A \<noteq> B"
  shows "occurs_before B A
           (map task_id (getAll (snd (patch_reorder (TaskArray [(A, 2), (B, 0)]) st))))"
proof -
  define st' where "st' = snd (patch_reorder (TaskArray [(A, 2), (B, 0)]) st)"
  have rows': "rows st' =
      map (\<lambda>t. if task_id t = B then t\<lparr>position := 0\<rparr>
                else if task_id t = A then t\<lparr>position := 2\<rparr> else t) (rows st)"
    using AB by (auto simp: st'_def patch_reorder_def rows_updatePosition)
  have ids: "map task_id (rows st') = map task_id (rows st)"
    by (simp add: rows' comp_def)
  from A obtain ta where ta: "ta \<in> set (rows st)" "task_id ta = A" by auto
  from B obtain tb where tb: "tb \<in> set (rows st)" "task_id tb = B" by auto
  define a where "a = ta\<lparr>position := 2\<rparr>"
  define b where "b = tb\<lparr>position := 0\<rparr>"
  have a: "a \<in> set (rows st')" "task_id a = A" "position a = 2"
    using ta AB by (auto simp: a_def rows' image_iff intro!: bexI [of _ ta])
  have b: "b \<in> set (rows st')" "task_id b = B" "position b = 0"
    using tb by (auto simp: b_def rows' image_iff intro!: bexI [of _ tb])
  have "occurs_before (task_id b) (task_id a) (map task_id (getAll st'))"
  proof (rule occurs_before_sorted)
    show "sorted_wrt position_then_newest (getAll st')" by (rule sorted_getAll)
    show "distinct (map task_id (getAll st'))"
      using pk ids by (simp add: getAll_def distinct_map_order_by)
    show "b \<in> set (getAll st')" "a \<in> set (getAll st')"
      using a b by (simp_all add: getAll_def set_order_by)
    show "\<not> position_then_newest a b"
      using a b by (simp add: position_then_newest_def)
    show "b \<noteq> a" using a b AB by auto
  qed
  then show ?thesis by (simp add: a b st'_def)
qed

theorem reorder_then_listAll_witness:
  "distinct (map task_id (rows sample_store))
   \<and> 1 \<in> set (map task_id (rows sample_store))
   \<and> 2 \<in> set (map task_id (rows sample_store))
   \<and> (1::nat) \<noteq> 2
   \<and> occurs_before 2 1
       (map task_id (getAll (snd (patch_reorder (TaskArray [(1, 2), (2, 0)]) sample_store))))"
  using reorder_then_listAll [of sample_store 1 2]
  by (simp add: sample_store_def sample_task_def)

section \<open>Updates and what histories preserve\<close>

lemma find_map_same_id:
  assumes "\<And>t. task_id (g t) = task_id t"
  shows "find (\<lambda>t. task_id t = i) (map (\<lambda>t. if task_id t = i then g t else t) xs) =
           map_option g (find (\<lambda>t. task_id t = i) xs)"
  by (induction xs) (auto simp: assms)

lemma getById_update:
  "getById (update ttl descr stat prio completed i st) i =
     map_option (\<lambda>t. t\<lparr>title := ttl, description := descr, status := stat,
                         priority := prio, completed_at := completed\<rparr>) (getById st i)"
  unfolding getById_def update_def
  using find_map_same_id
    [of "\<lambda>t. t\<lparr>title := ttl, description := descr, status := stat,
                 priority := prio, completed_at := completed\<rparr>" i "rows st"]
  by simp

lemma getById_mem: "getById st i = Some t \<Longrightarrow> t \<in> set (rows st) \<and> task_id t = i"
  by (auto simp: getById_def find_Some_iff)

lemma CURRENT_TIMESTAMP_le: "CURRENT_TIMESTAMP now \<le> now"
  by (simp add: CURRENT_TIMESTAMP_def)

lemma rows_update:
  "rows (update ttl descr stat prio completed i st) =
     map (\<lambda>t. if task_id t = i
               then t\<lparr>title := ttl, description := descr, status := stat,
                      priority := prio, completed_at := completed\<rparr>
               else t) (rows st)"
  by (simp add: update_def)

subsection \<open>The two outcomes of a create and of an update\<close>

lemma put_tasks_cases:
  assumes "getById st i = Some existing"
  obtains (failed)
    "put_tasks real_text now i body st = (ServerError ''Failed to update task'', st)"
  | (updated) ttl descr stat prio where
    "text_columns real_text
       [if truthy (b_title body) then b_title body else Some (JStr (title existing)),
        if b_description body \<noteq> None then b_description body
        else js_text (description existing),
        if truthy (b_status body) then b_status body else Some (JStr (status existing)),
        if truthy (b_priority body) then b_priority body
        else js_text (priority existing)] = Some (ttl, descr, stat, prio)"
    "put_tasks real_text now i body st =
       (Ok (getById
              (update ttl descr stat prio
                 (if b_status body = Some (JStr ''done'') \<and> status existing \<noteq> ''done''
                  then Some now else completed_at existing) i st) i),
        update ttl descr stat prio
          (if b_status body = Some (JStr ''done'') \<and> status existing \<noteq> ''done''
           then Some now else completed_at existing) i st)"
proof (cases "text_columns real_text
       [if truthy (b_title body) then b_title body else Some (JStr (title existing)),
        if b_description body \<noteq> None then b_description body
        else js_text (description existing),
        if truthy (b_status body) then b_status body else Some (JStr (status existing)),
        if truthy (b_priority body) then b_priority body
        else js_text (priority existing)]")
  case None
  then have "put_tasks real_text now i body st = (ServerError ''Failed to update task'', st)"
    unfolding put_tasks_def assms by (simp add: Let_def)
  then show thesis by (rule failed)
next
  case (Some cols)
  obtain ttl descr stat prio where cols: "cols = (ttl, descr, stat, prio)"
    by (cases cols) auto
  have "put_tasks real_text now i body st =
       (Ok (getById
              (update ttl descr stat prio
                 (if b_status body = Some (JStr ''done'') \<and> status existing \<noteq> ''done''
                  then Some now else completed_at existing) i st) i),
        update ttl descr stat prio
          (if b_status body = Some (JStr ''done'') \<and> status existing \<noteq> ''done''
           then Some now else completed_at existing) i st)"
    unfolding put_tasks_def assms using Some
    by (simp add: Let_def cols toISOString_def)
  with Some cols show thesis using updated by blast
qed

lemma post_tasks_cases:
  obtains (rejected) "snd (post_tasks real_text now body st) = st"
  | (created) ttl descr stat prio where
    "truthy (b_title body)"
    "text_columns real_text
       [b_title body, b_description body,
        case b_status body of None \<Rightarrow> Some (JStr ''todo'') | Some s \<Rightarrow> Some s,
        case b_priority body of None \<Rightarrow> Some (JStr ''medium'') | Some p \<Rightarrow> Some p] =
       Some (ttl, descr, stat, prio)"
    "snd (post_tasks real_text now body st) =
       snd (create now ttl descr stat prio
              (case b_position body of None \<Rightarrow> 0 | Some p \<Rightarrow> p) st)"
proof (cases "truthy (b_title body)")
  case False
  then have "snd (post_tasks real_text now body st) = st"
    by (simp add: post_tasks_def Let_def)
  then show thesis by (rule rejected)
next
  case True
  show thesis
  proof (cases "text_columns real_text
       [b_title body, b_description body,
        case b_status body of None \<Rightarrow> Some (JStr ''todo'') | Some s \<Rightarrow> Some s,
        case b_priority body of None \<Rightarrow> Some (JStr ''medium'') | Some p \<Rightarrow> Some p]")
    case None
    with True have "snd (post_tasks real_text now body st) = st"
      by (simp add: post_tasks_def Let_def)
    then show thesis by (rule rejected)
  next
    case (Some cols)
    obtain ttl descr stat prio where cols: "cols = (ttl, descr, stat, prio)"
      by (cases cols) auto
    have "snd (post_tasks real_text now body st) =
       snd (create now ttl descr stat prio
              (case b_position body of None \<Rightarrow> 0 | Some p \<Rightarrow> p) st)"
      using True Some by (simp add: post_tasks_def Let_def cols split: prod.splits)
    with True Some cols show thesis using created by blast
  qed
qed

subsection \<open>Creation stamps along a history\<close>

lemma created_by_post:
  assumes "created_by now st" "served \<le> now"
  shows "created_by now (snd (post_tasks real_text served body st))"
proof (rule post_tasks_cases [where real_text = real_text and now = served and body = body
      and st = st])
  assume "snd (post_tasks real_text served body st) = st"
  with assms show ?thesis by simp
next
  fix ttl descr stat prio
  assume "snd (post_tasks real_text served body st) =
       snd (create served ttl descr stat prio
              (case b_position body of None \<Rightarrow> 0 | Some p \<Rightarrow> p) st)"
  with assms CURRENT_TIMESTAMP_le [of served] show ?thesis
    by (auto simp: created_by_def create_def Let_def)
qed

lemma created_by_put:
  assumes "created_by now st"
  shows "created_by now (snd (put_tasks real_text served i body st))"
proof (cases "getById st i")
  case None
  with assms show ?thesis by (simp add: put_tasks_def)
next
  case (Some existing)
  show ?thesis
  proof (rule put_tasks_cases [OF Some, where real_text = real_text and body = body
        and now = served])
    assume "put_tasks real_text served i body st = (ServerError ''Failed to update task'', st)"
    with assms show ?thesis by simp
  next
    fix ttl descr stat prio
    assume "put_tasks real_text served i body st =
       (Ok (getById
              (update ttl descr stat prio
                 (if b_status body = Some (JStr ''done'') \<and> status existing \<noteq> ''done''
                  then Some served else completed_at existing) i st) i),
        update ttl descr stat prio
          (if b_status body = Some (JStr ''done'') \<and> status existing \<noteq> ''done''
           then Some served else completed_at existing) i st)"
    with assms show ?thesis
      by (auto simp: created_by_def list_all_iff rows_update)
  qed
qed

lemma created_by_reorder: "created_by now st \<Longrightarrow> created_by now (snd (patch_reorder tasks st))"
  by (cases tasks)
     (auto simp: created_by_def list_all_iff patch_reorder_def rows_reorder split: option.splits)

lemma created_by_delete: "created_by now st \<Longrightarrow> created_by now (snd (delete_tasks i st))"
  by (cases "getById st i") (auto simp: created_by_def list_all_iff delete_tasks_def delete_def)

lemma created_by_serve:
  "created_by now st \<Longrightarrow> served \<le> now \<Longrightarrow> created_by now (serve real_text served rq st)"
  by (cases rq)
     (simp_all add: serve_def created_by_post created_by_put created_by_reorder created_by_delete)

lemma created_by_run:
  "created_by now st \<Longrightarrow> served_by now history \<Longrightarrow> created_by now (run real_text st history)"
  by (induction real_text st history rule: run.induct)
     (simp_all add: served_by_def created_by_serve)

lemma created_by_initial: "created_by now initial"
  by (simp add: created_by_def initial_def)


subsection \<open>What reaches the title column\<close>

lemma bind_argument_scalar:
  "bind_argument None = Some [SqlNull]"
  "bind_argument (Some JNull) = Some [SqlNull]"
  "bind_argument (Some (JStr s)) = Some [SqlText s]"
  by (simp_all add: bind_argument_def bind_value_def)

lemma bind_text_first:
  assumes "bind (Some (JStr a) # rest) = Some vs"
  shows "\<exists>ws. vs = SqlText a # ws"
proof -
  from assms obtain zs where
    "all_some (map bind_argument (Some (JStr a) # rest)) = Some zs" "vs = concat zs"
    by (auto simp: bind_def split: if_splits)
  then show ?thesis
    by (auto simp: bind_argument_scalar)
qed

lemma text_columns_first:
  assumes "text_columns real_text (Some (JStr a) # rest) = Some (ttl, descr, stat, prio)"
  shows "ttl = a"
proof -
  from assms obtain vs where vs: "bind (Some (JStr a) # rest) = Some vs" "length vs = 4"
    and cols: "not_null_columns (map (text_affinity real_text) vs) = Some (ttl, descr, stat, prio)"
    by (auto simp: text_columns_def split: option.splits if_splits)
  from bind_text_first [OF vs(1)] vs(2) obtain v2 v3 v4 where "vs = [SqlText a, v2, v3, v4]"
    by (cases vs; cases "tl vs"; cases "tl (tl vs)"; cases "tl (tl (tl vs))") auto
  with cols show ?thesis
    by (cases "text_affinity real_text v3") (simp_all add: text_affinity_def)
qed


lemma is_text_truthy:
  assumes "is_text v" "truthy v"
  obtains s where "v = Some (JStr s)" "s \<noteq> []"
  using assms
  by (cases v rule: option.exhaust; cases "the v") (auto simp: is_text_def truthy_def)

lemma is_text_cases:
  assumes "is_text v"
  obtains "v = None" | s where "v = Some (JStr s)"
  using assms
  by (cases v rule: option.exhaust; cases "the v") (auto simp: is_text_def)


subsection \<open>The completion stamp of an update\<close>






subsection \<open>Titles along a history of string titles\<close>

lemma titled_post:
  assumes "titled st" "is_text (b_title body)"
  shows "titled (snd (post_tasks real_text now body st))"
proof (rule post_tasks_cases [where real_text = real_text and now = now and body = body
      and st = st])
  assume "snd (post_tasks real_text now body st) = st"
  with assms show ?thesis by simp
next
  fix ttl descr stat prio
  assume t: "truthy (b_title body)"
    and cols: "text_columns real_text
       [b_title body, b_description body,
        case b_status body of None \<Rightarrow> Some (JStr ''todo'') | Some s \<Rightarrow> Some s,
        case b_priority body of None \<Rightarrow> Some (JStr ''medium'') | Some p \<Rightarrow> Some p] =
       Some (ttl, descr, stat, prio)"
    and post: "snd (post_tasks real_text now body st) =
       snd (create now ttl descr stat prio
              (case b_position body of None \<Rightarrow> 0 | Some p \<Rightarrow> p) st)"
  from assms(2) t obtain s where s: "b_title body = Some (JStr s)" "s \<noteq> []"
    by (rule is_text_truthy)
  from cols have "ttl = s"
    unfolding s(1) by (rule text_columns_first)
  with s(2) assms(1) show ?thesis
    unfolding post by (simp add: titled_def create_def Let_def)
qed

lemma titled_put:
  assumes "titled st" "is_text (b_title body)"
  shows "titled (snd (put_tasks real_text now i body st))"
proof (cases "getById st i")
  case None
  with assms show ?thesis by (simp add: put_tasks_def)
next
  case (Some existing)
  then have old: "title existing \<noteq> []"
    using assms(1) getById_mem [of st i existing] by (auto simp: titled_def list_all_iff)
  obtain a where a: "(if truthy (b_title body) then b_title body
                      else Some (JStr (title existing))) = Some (JStr a)" "a \<noteq> []"
    using assms(2) old by (cases "truthy (b_title body)") (auto elim: is_text_truthy)
  show ?thesis
  proof (rule put_tasks_cases [OF Some, where real_text = real_text and body = body
        and now = now])
    assume "put_tasks real_text now i body st = (ServerError ''Failed to update task'', st)"
    with assms show ?thesis by simp
  next
    fix ttl descr stat prio
    assume cols: "text_columns real_text
       [if truthy (b_title body) then b_title body else Some (JStr (title existing)),
        if b_description body \<noteq> None then b_description body
        else js_text (description existing),
        if truthy (b_status body) then b_status body else Some (JStr (status existing)),
        if truthy (b_priority body) then b_priority body else js_text (priority existing)] =
       Some (ttl, descr, stat, prio)"
      and put: "put_tasks real_text now i body st =
       (Ok (getById
              (update ttl descr stat prio
                 (if b_status body = Some (JStr ''done'') \<and> status existing \<noteq> ''done''
                  then Some now else completed_at existing) i st) i),
        update ttl descr stat prio
          (if b_status body = Some (JStr ''done'') \<and> status existing \<noteq> ''done''
           then Some now else completed_at existing) i st)"
    from cols have "ttl = a"
      unfolding a(1) by (rule text_columns_first)
    with a(2) assms(1) show ?thesis
      unfolding put by (auto simp: titled_def list_all_iff rows_update)
  qed
qed

lemma titled_reorder: "titled st \<Longrightarrow> titled (snd (patch_reorder tasks st))"
  by (cases tasks)
     (auto simp: titled_def list_all_iff patch_reorder_def rows_reorder split: option.splits)

lemma titled_delete: "titled st \<Longrightarrow> titled (snd (delete_tasks i st))"
  by (cases "getById st i") (auto simp: titled_def list_all_iff delete_tasks_def delete_def)

lemma titled_serve:
  assumes "titled st" "text_title rq"
  shows "titled (serve real_text now rq st)"
  using assms
  by (cases rq)
     (simp_all add: serve_def text_title_def titled_post titled_put titled_reorder
        titled_delete)

lemma titled_run:
  assumes "titled st" "text_titles history"
  shows "titled (run real_text st history)"
  using assms
  by (induction real_text st history rule: run.induct)
     (simp_all add: text_titles_def titled_serve)

lemma titled_initial: "titled initial"
  by (simp add: titled_def initial_def)

lemma text_titles_never_empty:
  "text_titles history \<Longrightarrow> titled (run real_text initial history)"
  by (rule titled_run [OF titled_initial])

lemma post_tasks_title_required:
  "\<not> truthy (b_title body) \<Longrightarrow>
     post_tasks real_text now body st = (BadRequest ''Title is required'', st)"
  by (simp add: post_tasks_def Let_def)

lemma put_tasks_blank_title:
  assumes "getById st i = Some existing" "b_title body = Some (JStr [])"
  shows "put_tasks real_text now i body st = (ServerError ''Failed to update task'', st)
         \<or> (\<exists>updated st'. put_tasks real_text now i body st = (Ok (Some updated), st')
                \<and> getById st' i = Some updated \<and> title updated = title existing)"
proof (rule put_tasks_cases [OF assms(1), where real_text = real_text and body = body
      and now = now])
  assume "put_tasks real_text now i body st = (ServerError ''Failed to update task'', st)"
  then show ?thesis by blast
next
  fix ttl descr stat prio
  assume cols: "text_columns real_text
       [if truthy (b_title body) then b_title body else Some (JStr (title existing)),
        if b_description body \<noteq> None then b_description body
        else js_text (description existing),
        if truthy (b_status body) then b_status body else Some (JStr (status existing)),
        if truthy (b_priority body) then b_priority body else js_text (priority existing)] =
       Some (ttl, descr, stat, prio)"
    and put: "put_tasks real_text now i body st =
       (Ok (getById
              (update ttl descr stat prio
                 (if b_status body = Some (JStr ''done'') \<and> status existing \<noteq> ''done''
                  then Some now else completed_at existing) i st) i),
        update ttl descr stat prio
          (if b_status body = Some (JStr ''done'') \<and> status existing \<noteq> ''done''
           then Some now else completed_at existing) i st)"
  have "(if truthy (b_title body) then b_title body else Some (JStr (title existing))) =
          Some (JStr (title existing))"
    by (simp add: assms(2) truthy_def)
  with cols have "ttl = title existing"
    by (simp only:) (rule text_columns_first)
  then show ?thesis
    unfolding put by (simp add: getById_update assms(1))
qed

text \<open>
  C10. No operation should leave a row with an empty title. The handlers test the title
  for truthiness only, and an array is truthy: the create request with the body
  \<^verbatim>\<open>{"title": [""]}\<close> on the empty table is not answered 400; the driver binds the array's
  one element as the statement's first parameter, and the answer is 201 with a stored row
  whose title is the empty string. An update with the same body answers 200 and replaces
  the title of the row by the empty string.
\<close>

theorem array_title_stored_empty:
  "post_tasks sample_real_text 1500 array_title initial =
     (Created (Some \<lparr>task_id = 1, title = [], description = None, status = ''todo'',
                      priority = Some ''medium'', created_at = 1000, completed_at = None,
                      position = 0\<rparr>),
      \<lparr>rows = [\<lparr>task_id = 1, title = [], description = None, status = ''todo'',
                 priority = Some ''medium'', created_at = 1000, completed_at = None,
                 position = 0\<rparr>],
       seq = 1\<rparr>)
   \<and> \<not> titled (run sample_real_text initial [(1500, PostTask array_title)])
   \<and> fst (put_tasks sample_real_text 1500 1 array_title sample_store) =
       Ok (Some \<lparr>task_id = 1, title = [], description = None, status = ''todo'',
                 priority = Some ''medium'', created_at = 1000, completed_at = None,
                 position = 0\<rparr>)
   \<and> \<not> titled (run sample_real_text sample_store [(1500, PutTask 1 array_title)])"
proof -
  have bound: "bind_argument (Some (JArr [JStr []])) = Some [SqlText []]"
    by (simp add: bind_argument_def bind_value_def)
  have post: "text_columns sample_real_text
      [Some (JArr [JStr []]), None, Some (JStr ''todo''), Some (JStr ''medium'')] =
      Some ([], None, ''todo'', Some ''medium'')"
    by (simp add: text_columns_def bind_def bound bind_argument_scalar is_plain_object_def
        text_affinity_def)
  have put: "text_columns sample_real_text
      [Some (JArr [JStr []]), Some JNull, Some (JStr ''todo''), Some (JStr ''medium'')] =
      Some ([], None, ''todo'', Some ''medium'')"
    by (simp add: text_columns_def bind_def bound bind_argument_scalar is_plain_object_def
        text_affinity_def)
  have shape: "truthy (Some (JArr [JStr []]))"
    by (simp add: truthy_def)
  have created: "post_tasks sample_real_text 1500 array_title initial =
     (Created (Some \<lparr>task_id = 1, title = [], description = None, status = ''todo'',
                      priority = Some ''medium'', created_at = 1000, completed_at = None,
                      position = 0\<rparr>),
      \<lparr>rows = [\<lparr>task_id = 1, title = [], description = None, status = ''todo'',
                 priority = Some ''medium'', created_at = 1000, completed_at = None,
                 position = 0\<rparr>],
       seq = 1\<rparr>)"
    by (simp add: post_tasks_def array_title_def shape post create_def initial_def
        CURRENT_TIMESTAMP_def getById_def Let_def)
  have found: "getById sample_store 1 = Some (sample_task 1 ''todo'' ''medium'' 1000 0)"
    by (simp add: getById_def sample_store_def sample_task_def)
  have updated: "put_tasks sample_real_text 1500 1 array_title sample_store =
     (Ok (Some \<lparr>task_id = 1, title = [], description = None, status = ''todo'',
                 priority = Some ''medium'', created_at = 1000, completed_at = None,
                 position = 0\<rparr>),
      \<lparr>rows = [\<lparr>task_id = 1, title = [], description = None, status = ''todo'',
                 priority = Some ''medium'', created_at = 1000, completed_at = None,
                 position = 0\<rparr>,
               sample_task 2 ''done'' ''high'' 86402000 0],
       seq = 2\<rparr>)"
    by (simp add: put_tasks_def found array_title_def shape truthy_def js_text_def put
        sample_task_def update_def sample_store_def getById_def Let_def)
  show ?thesis
    unfolding run.simps serve_def request.case created updated
    by (simp add: titled_def)
qed

section \<open>Weekly statistics\<close>

lemma date_group_row: "date (group_row d ts) = d"
  by (simp add: group_row_def Let_def)

lemma total_group_row: "total_tasks (group_row d ts) = length ts"
  by (simp add: group_row_def Let_def)

lemma completed_group_row:
  "completed_tasks (group_row d ts) = length (filter (\<lambda>t. status t = ''done'') ts)"
  by (simp add: group_row_def Let_def)

lemma getWeeklyStats_alt:
  "getWeeklyStats now st = order_by (\<lambda>a b. date b \<le> date a) (week_groups now st)"
  by (simp add: getWeeklyStats_def week_groups_def week_rows_def)

lemma dates_week_groups:
  "map date (week_groups now st) =
     remdups (map (\<lambda>t. date_of (created_at t)) (week_rows now st))"
  by (simp add: week_groups_def group_by_date_def comp_def date_group_row)

lemma set_getWeeklyStats: "set (getWeeklyStats now st) = set (week_groups now st)"
  by (simp add: getWeeklyStats_alt set_order_by)

lemma distinct_dates_weekly: "distinct (map date (getWeeklyStats now st))"
  by (simp add: getWeeklyStats_alt distinct_map_order_by dates_week_groups)

lemma strictly_descending:
  "sorted_wrt (\<lambda>a b. (b::nat) \<le> a) xs \<Longrightarrow> distinct xs \<Longrightarrow> sorted_wrt (\<lambda>a b. b < a) xs"
  by (induction xs) (auto simp: order.strict_iff_order)

lemma sorted_dates_weekly: "sorted_wrt (\<lambda>a b. b < a) (map date (getWeeklyStats now st))"
proof -
  have "sorted_wrt (\<lambda>a b. date b \<le> date a) (getWeeklyStats now st)"
    unfolding getWeeklyStats_alt by (rule sorted_order_by) auto
  then have "sorted_wrt (\<lambda>a b. b \<le> a) (map date (getWeeklyStats now st))"
    by (simp add: sorted_wrt_map)
  with distinct_dates_weekly [of now st] show ?thesis
    by (rule strictly_descending [rotated])
qed

lemma week_group_cases:
  assumes "r \<in> set (week_groups now st)"
  shows "date_of now - 7 \<le> date r
         \<and> r = group_row (date r) (filter (\<lambda>t. date_of (created_at t) = date r) (rows st))
         \<and> (\<exists>t\<in>set (rows st). date_of (created_at t) = date r)"
proof -
  from assms obtain d where d: "d \<in> set (map (\<lambda>t. date_of (created_at t)) (week_rows now st))"
    and r: "r = group_row d (filter (\<lambda>t. date_of (created_at t) = d) (week_rows now st))"
    by (auto simp: week_groups_def group_by_date_def)
  from d have lo: "date_of now - 7 \<le> d" and ex: "\<exists>t\<in>set (rows st). date_of (created_at t) = d"
    by (auto simp: week_rows_def)
  have "filter (\<lambda>t. date_of (created_at t) = d) (week_rows now st) =
        filter (\<lambda>t. date_of (created_at t) = d) (rows st)"
    using lo unfolding week_rows_def filter_filter
    by (intro filter_cong) auto
  with r lo ex show ?thesis by (simp add: date_group_row)
qed

lemma dates_weekly_set:
  "set (map date (getWeeklyStats now st)) =
     {d. date_of now - 7 \<le> d \<and> (\<exists>t\<in>set (rows st). date_of (created_at t) = d)}"
proof -
  have "set (map date (getWeeklyStats now st)) = set (map date (week_groups now st))"
    by (simp add: set_getWeeklyStats)
  also have "\<dots> = set (map (\<lambda>t. date_of (created_at t)) (week_rows now st))"
    by (simp add: dates_week_groups)
  also have "\<dots> = {d. date_of now - 7 \<le> d \<and> (\<exists>t\<in>set (rows st). date_of (created_at t) = d)}"
    by (auto simp: week_rows_def)
  finally show ?thesis .
qed

lemma date_of_mono: "a \<le> b \<Longrightarrow> date_of a \<le> date_of b"
  by (simp add: date_of_def div_le_mono)

text \<open>
  C9. The weekly endpoint answers 200 with the rows of the weekly query. Their dates are
  strictly descending (newest first, one row for each date), and they are exactly the dates
  from seven days before today on which some task was created; each row is the aggregate
  over all tasks created on its date and counts at least one task, so a date without tasks
  has no row. When the table is the result of a history of requests served no later than
  now, no date is later than today.
\<close>

theorem weekly_rows:
  "get_weekly now st = Ok (getWeeklyStats now st)
   \<and> sorted_wrt (\<lambda>newer older. older < newer) (map date (getWeeklyStats now st))
   \<and> set (map date (getWeeklyStats now st)) =
        {d. date_of now - 7 \<le> d \<and> (\<exists>t\<in>set (rows st). date_of (created_at t) = d)}
   \<and> list_all
        (\<lambda>r. r = group_row (date r) (filter (\<lambda>t. date_of (created_at t) = date r) (rows st))
             \<and> 1 \<le> total_tasks r)
        (getWeeklyStats now st)
   \<and> (st = run real_text initial history \<and> served_by now history \<longrightarrow>
        list_all (\<lambda>r. date r \<le> date_of now) (getWeeklyStats now st))"
proof -
  have rows: "list_all
        (\<lambda>r. r = group_row (date r) (filter (\<lambda>t. date_of (created_at t) = date r) (rows st))
             \<and> 1 \<le> total_tasks r)
        (getWeeklyStats now st)"
    unfolding list_all_iff set_getWeeklyStats
  proof
    fix r assume r: "r \<in> set (week_groups now st)"
    from week_group_cases [OF r] obtain t where
      eq: "r = group_row (date r) (filter (\<lambda>t. date_of (created_at t) = date r) (rows st))"
      and t: "t \<in> set (rows st)" "date_of (created_at t) = date r"
      by blast
    from t have "filter (\<lambda>t. date_of (created_at t) = date r) (rows st) \<noteq> []"
      by (auto simp: filter_empty_conv)
    then have "1 \<le> length (filter (\<lambda>t. date_of (created_at t) = date r) (rows st))"
      by (simp add: Suc_le_eq)
    then have "1 \<le> total_tasks r"
      using eq total_group_row by metis
    with eq show "r = group_row (date r) (filter (\<lambda>t. date_of (created_at t) = date r) (rows st))
             \<and> 1 \<le> total_tasks r" by blast
  qed
  have past: "st = run real_text initial history \<and> served_by now history \<longrightarrow>
        list_all (\<lambda>r. date r \<le> date_of now) (getWeeklyStats now st)"
  proof
    assume h: "st = run real_text initial history \<and> served_by now history"
    then have c: "created_by now st"
      using created_by_run [OF created_by_initial, of now history real_text] by simp
    show "list_all (\<lambda>r. date r \<le> date_of now) (getWeeklyStats now st)"
      unfolding list_all_iff set_getWeeklyStats
    proof
      fix r assume "r \<in> set (week_groups now st)"
      from week_group_cases [OF this] obtain t where
        "t \<in> set (rows st)" "date_of (created_at t) = date r" by blast
      with c show "date r \<le> date_of now"
        using date_of_mono [of "created_at t" now] by (auto simp: created_by_def list_all_iff)
    qed
  qed
  show ?thesis
    using rows past sorted_dates_weekly [of now st] dates_weekly_set [of now st]
    by (simp add: get_weekly_def)
qed



lemma full_rate: "js_mul (js_div 1 1) 100 = 100"
  by code_simp

lemma weekly_sample:
  "getWeeklyStats 691200000 sample_store =
        [\<lparr>date = 1, total_tasks = 1, completed_tasks = 1, completion_rate = 100\<rparr>]"
  by (simp add: getWeeklyStats_def sample_store_def sample_task_def date_of_def
      group_by_date_def group_row_def order_by_def full_rate)

theorem weekly_rows_witness:
  "served_by 691200000 sample_history
   \<and> list_all (\<lambda>r. date r \<le> date_of 691200000)
        (getWeeklyStats 691200000 (run sample_real_text initial sample_history))
   \<and> get_weekly 691200000 sample_store =
        Ok [\<lparr>date = 1, total_tasks = 1, completed_tasks = 1, completion_rate = 100\<rparr>]"
proof -
  have s: "served_by 691200000 sample_history"
    by (simp add: served_by_def sample_history_def)
  show ?thesis
    using weekly_rows [of 691200000 "run sample_real_text initial sample_history" sample_real_text
        sample_history] s
      weekly_rows [of 691200000 sample_store] weekly_sample
    by simp
qed

section \<open>Falling back to the heuristic\<close>

lemma content_match_cases:
  "content_match c =
     (case c of Some (JStr s) \<Rightarrow> Fulfilled (match_braces s) | _ \<Rightarrow> Rejected)"
  by (simp add: content_match_def)

lemma analyze_try_no_key:
  "analyze_try [] fetch JSON_parse tasks =
     ([], Fulfilled (Computed (basicAnalysis tasks (done_tasks tasks) (open_tasks tasks))))"
  by (simp add: analyze_try_def)

lemma analyze_try_fetch_rejected:
  assumes "groqApiKey \<noteq> []" "fetch (groq_request groqApiKey tasks) = Rejected"
  shows "analyze_try groqApiKey fetch JSON_parse tasks =
           ([groq_request groqApiKey tasks], Rejected)"
  using assms by (simp add: analyze_try_def)

lemma analyze_try_not_ok:
  assumes "groqApiKey \<noteq> []" "fetch (groq_request groqApiKey tasks) = Fulfilled response"
    and "\<not> resp_ok response"
  shows "analyze_try groqApiKey fetch JSON_parse tasks =
           ([groq_request groqApiKey tasks],
            case resp_text response of
              Rejected \<Rightarrow> Rejected
            | Fulfilled _ \<Rightarrow>
                Fulfilled (Computed (basicAnalysis tasks (done_tasks tasks) (open_tasks tasks))))"
  using assms by (simp add: analyze_try_def split: settled.splits)

lemma analyze_try_ok:
  assumes "groqApiKey \<noteq> []" "fetch (groq_request groqApiKey tasks) = Fulfilled response"
    and "resp_ok response"
  shows "analyze_try groqApiKey fetch JSON_parse tasks =
           ([groq_request groqApiKey tasks],
            case usable_reply JSON_parse response of
              Some analysis \<Rightarrow> Fulfilled (Reply analysis)
            | None \<Rightarrow>
                (case resp_json response of
                   Rejected \<Rightarrow> Rejected
                 | Fulfilled data \<Rightarrow>
                     (case reply_content data of
                        Fulfilled (Some (JStr s)) \<Rightarrow>
                          (case match_braces s of
                             None \<Rightarrow> Fulfilled (Computed (basicAnalysis tasks (done_tasks tasks)
                                                             (open_tasks tasks)))
                           | Some _ \<Rightarrow> Rejected)
                      | _ \<Rightarrow> Rejected)))"
  using assms
  by (simp add: analyze_try_def usable_reply_def content_match_def
      split: settled.splits option.splits json.splits)

lemma analyze_failed:
  assumes "tasks \<noteq> []"
    and "call_failed groqApiKey fetch JSON_parse tasks"
  shows "snd (analyzeTasks groqApiKey fetch JSON_parse tasks) =
           Computed (basicAnalysis tasks (done_tasks tasks) (open_tasks tasks))"
proof (cases "groqApiKey = []")
  case True
  with assms(1) show ?thesis
    by (simp add: analyzeTasks_def analyze_try_no_key)
next
  case key: False
  show ?thesis
  proof (cases "fetch (groq_request groqApiKey tasks)")
    case Rejected
    with assms(1) key show ?thesis
      by (simp add: analyzeTasks_def analyze_try_fetch_rejected)
  next
    case (Fulfilled response)
    show ?thesis
    proof (cases "resp_ok response")
      case False
      with assms(1) key Fulfilled show ?thesis
        by (simp add: analyzeTasks_def analyze_try_not_ok split: settled.splits)
    next
      case True
      with assms(2) key Fulfilled have "usable_reply JSON_parse response = None"
        by (simp add: call_failed_def missing_credential_def network_error_def
            non_success_def no_parseable_json_def)
      with assms(1) key Fulfilled True show ?thesis
        by (simp add: analyzeTasks_def analyze_try_ok
            split: settled.splits option.splits json.splits)
    qed
  qed
qed

lemma analyze_succeeded:
  assumes "tasks \<noteq> []"
    and "\<not> call_failed groqApiKey fetch JSON_parse tasks"
  shows "\<exists>response analysis.
           fetch (groq_request groqApiKey tasks) = Fulfilled response
           \<and> resp_ok response
           \<and> usable_reply JSON_parse response = Some analysis
           \<and> analyzeTasks groqApiKey fetch JSON_parse tasks =
               ([groq_request groqApiKey tasks], Reply analysis)"
proof -
  from assms(2) have key: "groqApiKey \<noteq> []"
    by (simp add: call_failed_def missing_credential_def)
  from assms(2) obtain response where
    f: "fetch (groq_request groqApiKey tasks) = Fulfilled response"
    by (cases "fetch (groq_request groqApiKey tasks)")
       (auto simp: call_failed_def network_error_def)
  with assms(2) have ok: "resp_ok response"
    by (simp add: call_failed_def non_success_def)
  with assms(2) f obtain analysis where
    u: "usable_reply JSON_parse response = Some analysis"
    by (auto simp: call_failed_def no_parseable_json_def)
  with assms(1) key f ok have
    "analyzeTasks groqApiKey fetch JSON_parse tasks =
       ([groq_request groqApiKey tasks], Reply analysis)"
    by (simp add: analyzeTasks_def analyze_try_ok)
  with f ok u show ?thesis by blast
qed

text \<open>
  C2. For a non-empty task list \<^verbatim>\<open>analyzeTasks\<close> always returns. When the API key is missing
  it returns the result of \<^verbatim>\<open>basicAnalysis\<close> without sending a request. Whenever the call
  fails (the key is missing, or \<^verbatim>\<open>fetch\<close> rejects, or the response is not a success, or
  the successful response holds no JSON value that the code can extract and parse) it
  returns the result of \<^verbatim>\<open>basicAnalysis\<close> on the task list and its completed and incomplete
  parts: every exception of the \<^verbatim>\<open>try\<close> block ends in the \<^verbatim>\<open>catch\<close> branch. In the one
  remaining case it returns the JSON value parsed out of the reply.
\<close>

theorem analyze_degrades:
  assumes "tasks \<noteq> []"
  shows "(missing_credential groqApiKey \<longrightarrow>
            analyzeTasks groqApiKey fetch JSON_parse tasks =
              ([], Computed (basicAnalysis tasks (done_tasks tasks) (open_tasks tasks))))
         \<and> (call_failed groqApiKey fetch JSON_parse tasks \<longrightarrow>
            snd (analyzeTasks groqApiKey fetch JSON_parse tasks) =
              Computed (basicAnalysis tasks (done_tasks tasks) (open_tasks tasks)))
         \<and> (\<not> call_failed groqApiKey fetch JSON_parse tasks \<longrightarrow>
            (\<exists>response analysis.
               fetch (groq_request groqApiKey tasks) = Fulfilled response
               \<and> resp_ok response
               \<and> usable_reply JSON_parse response = Some analysis
               \<and> analyzeTasks groqApiKey fetch JSON_parse tasks =
                   ([groq_request groqApiKey tasks], Reply analysis)))"
proof -
  have "missing_credential groqApiKey \<longrightarrow>
            analyzeTasks groqApiKey fetch JSON_parse tasks =
              ([], Computed (basicAnalysis tasks (done_tasks tasks) (open_tasks tasks)))"
    using assms by (simp add: missing_credential_def analyzeTasks_def analyze_try_no_key)
  then show ?thesis
    using analyze_failed [OF assms] analyze_succeeded [OF assms] by blast
qed

theorem analyze_degrades_witness:
  "[sample_task 1 ''todo'' ''high'' 1000 0] \<noteq> []
   \<and> missing_credential []
   \<and> analyzeTasks [] (\<lambda>rq. Rejected) (\<lambda>s. None) [sample_task 1 ''todo'' ''high'' 1000 0] =
       ([], Computed (basicAnalysis [sample_task 1 ''todo'' ''high'' 1000 0]
                        (done_tasks [sample_task 1 ''todo'' ''high'' 1000 0])
                        (open_tasks [sample_task 1 ''todo'' ''high'' 1000 0])))
   \<and> call_failed ''key'' (\<lambda>rq. Fulfilled sample_response) parse_empty_object
        [sample_task 1 ''todo'' ''high'' 1000 0]
   \<and> snd (analyzeTasks ''key'' (\<lambda>rq. Fulfilled sample_response) parse_empty_object
            [sample_task 1 ''todo'' ''high'' 1000 0]) =
       Computed (basicAnalysis [sample_task 1 ''todo'' ''high'' 1000 0]
                   (done_tasks [sample_task 1 ''todo'' ''high'' 1000 0])
                   (open_tasks [sample_task 1 ''todo'' ''high'' 1000 0]))
   \<and> \<not> call_failed ''key'' (\<lambda>rq. Fulfilled good_response) parse_empty_object
        [sample_task 1 ''todo'' ''high'' 1000 0]
   \<and> snd (analyzeTasks ''key'' (\<lambda>rq. Fulfilled good_response) parse_empty_object
            [sample_task 1 ''todo'' ''high'' 1000 0]) = Reply (JObj [])"
proof -
  have m: "missing_credential []"
    by (simp add: missing_credential_def)
  have n: "call_failed ''key'' (\<lambda>rq. Fulfilled sample_response) parse_empty_object
        [sample_task 1 ''todo'' ''high'' 1000 0]"
    by (simp add: call_failed_def no_parseable_json_def sample_response_def usable_reply_def
        sample_reply_def reply_content_def get_named_def get_index0_def opt_named_def
        truthy_def match_braces_def)
  have u: "usable_reply parse_empty_object good_response = Some (JObj [])"
    by (simp add: good_response_def usable_reply_def reply_content_def get_named_def
        get_index0_def opt_named_def truthy_def match_braces_def parse_empty_object_def)
  then have g: "\<not> call_failed ''key'' (\<lambda>rq. Fulfilled good_response) parse_empty_object
        [sample_task 1 ''todo'' ''high'' 1000 0]"
    by (simp add: call_failed_def missing_credential_def network_error_def non_success_def
        no_parseable_json_def good_response_def)
  show ?thesis
    using analyze_degrades [of "[sample_task 1 ''todo'' ''high'' 1000 0]" "[]"
        "\<lambda>rq. Rejected" "\<lambda>s. None"] m
      analyze_degrades [of "[sample_task 1 ''todo'' ''high'' 1000 0]" "''key''"
        "\<lambda>rq. Fulfilled sample_response" parse_empty_object] n
      analyze_degrades [of "[sample_task 1 ''todo'' ''high'' 1000 0]" "''key''"
        "\<lambda>rq. Fulfilled good_response" parse_empty_object] g u
    by auto
qed

section \<open>Rounding to a double\<close>

text \<open>
  The double nearest to a positive rational has a 53-bit significand at the binary exponent
  of the rational, and lies within half a unit in the last place of it.
\<close>

lemma pow2_pos: "0 < pow2 e"
  by (simp add: pow2_def)

lemma pow2_Suc: "pow2 (e + 1) = 2 * pow2 e"
proof (cases "0 \<le> e")
  case True
  then show ?thesis by (simp add: pow2_def nat_add_distrib)
next
  case False
  then have "nat (- e) = Suc (nat (- (e + 1)))" by simp
  with False show ?thesis by (auto simp add: pow2_def)
qed

lemma pow2_52: "pow2 e = 2 ^ 52 * pow2 (e - 52)"
proof -
  have "pow2 e = 2 powi e" for e
    by (simp add: pow2_def power_int_def field_simps)
  then show ?thesis
    using power_int_add [of "2::rat" 52 "e - 52"] by simp
qed

lemma ilog2_bounds:
  assumes "0 < x"
  shows "pow2 (ilog2 x) \<le> x \<and> x < pow2 (ilog2 x + 1)"
proof (cases "1 \<le> x")
  case True
  define n where "n = \<lfloor>x\<rfloor>"
  have n: "1 \<le> n" using True by (simp add: n_def le_floor_iff)
  then have b: "2 ^ nat (bitlen n - 1) \<le> n" "n < 2 ^ nat (bitlen n)"
    using bitlen_bounds [of n] by simp_all
  have bl: "1 \<le> bitlen n" using n by (simp add: bitlen_alt_def)
  have e: "ilog2 x = bitlen n - 1" using True by (simp add: ilog2_def n_def)
  have "(2::rat) ^ nat (bitlen n - 1) = of_int (2 ^ nat (bitlen n - 1))" by simp
  also have "\<dots> \<le> of_int n" using b(1) by (simp only: of_int_le_iff)
  also have "\<dots> \<le> x" by (simp add: n_def)
  finally have lo: "pow2 (ilog2 x) \<le> x" using bl by (simp add: e pow2_def)
  have "n + 1 \<le> 2 ^ nat (bitlen n)" using b(2) by simp
  then have "(of_int (n + 1) :: rat) \<le> of_int (2 ^ nat (bitlen n))"
    by (simp only: of_int_le_iff)
  moreover have "x < of_int (n + 1)" using floor_correct [of x] by (simp add: n_def)
  ultimately have "x < 2 ^ nat (bitlen n)" by simp
  then have hi: "x < pow2 (ilog2 x + 1)" using bl by (simp add: e pow2_def)
  from lo hi show ?thesis ..
next
  case False
  define y where "y = 1 / x"
  define m where "m = \<lceil>y\<rceil> - 1"
  define k where "k = bitlen m"
  from False assms have y1: "1 < y" by (simp add: y_def)
  then have "2 \<le> \<lceil>y\<rceil>" by (simp add: le_ceiling_iff)
  then have m: "1 \<le> m" by (simp add: m_def)
  then have b: "2 ^ nat (k - 1) \<le> m" "m < 2 ^ nat k"
    using bitlen_bounds [of m] by (simp_all add: k_def)
  have k: "1 \<le> k" using m by (simp add: k_def bitlen_alt_def)
  have e: "ilog2 x = - k" using False by (simp add: ilog2_def k_def m_def y_def)
  have "\<lceil>y\<rceil> \<le> 2 ^ nat k" using b(2) by (simp add: m_def)
  then have "y \<le> of_int (2 ^ nat k)" by (simp only: ceiling_le_iff)
  then have yk: "y \<le> 2 ^ nat k" by simp
  have "2 ^ nat (k - 1) < \<lceil>y\<rceil>" using b(1) by (simp add: m_def)
  then have "of_int (2 ^ nat (k - 1)) < y" by (simp only: less_ceiling_iff)
  then have ky: "2 ^ nat (k - 1) < y" by simp
  have x: "x = 1 / y" by (simp add: y_def)
  have pk: "pow2 (ilog2 x) = 1 / 2 ^ nat k"
    using k by (simp add: e pow2_def)
  have "1 / 2 ^ nat k \<le> x"
    unfolding x using yk y1 by (simp add: field_simps)
  then have lo: "pow2 (ilog2 x) \<le> x"
    unfolding pk .
  have pk1: "pow2 (ilog2 x + 1) = 1 / 2 ^ nat (k - 1)"
    using k by (auto simp: e pow2_def nat_diff_distrib)
  have "x < 1 / 2 ^ nat (k - 1)"
    unfolding x using ky y1 by (simp add: field_simps)
  then have hi: "x < pow2 (ilog2 x + 1)"
    unfolding pk1 .
  from lo hi show ?thesis ..
qed

lemma round_half_even_error: "\<bar>of_int (round_half_even q) - q\<bar> \<le> 1 / 2"
proof -
  define f where "f = \<lfloor>q\<rfloor>"
  define r where "r = q - of_int f"
  have r: "0 \<le> r" "r < 1"
    using floor_correct [of q] by (simp_all add: r_def f_def)
  have q: "q = of_int f + r" by (simp add: r_def)
  have "round_half_even q = (if r < 1 / 2 then f else if 1 / 2 < r then f + 1
                             else if even f then f else f + 1)"
    by (simp add: round_half_even_def Let_def f_def r_def)
  then show ?thesis
    using r unfolding q by (auto simp: abs_if)
qed

lemma to_double_error:
  assumes "0 < x"
  shows "\<bar>to_double x - x\<bar> \<le> pow2 (ilog2 x - 52) / 2"
proof -
  define ulp where "ulp = pow2 (ilog2 x - 52)"
  have u: "0 < ulp" by (simp add: ulp_def pow2_pos)
  have "to_double x - x = (of_int (round_half_even (x / ulp)) - x / ulp) * ulp"
    using assms u by (simp add: to_double_def ulp_def Let_def field_simps)
  then have "\<bar>to_double x - x\<bar> = \<bar>of_int (round_half_even (x / ulp)) - x / ulp\<bar> * ulp"
    using u by (simp add: abs_mult)
  also have "\<dots> \<le> 1 / 2 * ulp"
    using round_half_even_error [of "x / ulp"] u by (intro mult_right_mono) simp_all
  finally show ?thesis by (simp add: ulp_def)
qed

lemma to_double_significand:
  assumes "0 < x"
  shows "\<exists>m. to_double x = of_int m * pow2 (ilog2 x - 52) \<and> 2 ^ 52 \<le> m \<and> m \<le> 2 ^ 53"
proof -
  define ulp where "ulp = pow2 (ilog2 x - 52)"
  define q where "q = x / ulp"
  have u: "0 < ulp" by (simp add: ulp_def pow2_pos)
  have p: "pow2 (ilog2 x) = 2 ^ 52 * ulp"
    unfolding ulp_def by (rule pow2_52)
  have p1: "pow2 (ilog2 x + 1) = 2 ^ 53 * ulp"
    by (simp add: pow2_Suc p)
  from ilog2_bounds [OF assms] have "2 ^ 52 * ulp \<le> x" "x < 2 ^ 53 * ulp"
    by (simp_all add: p p1)
  then have q: "2 ^ 52 \<le> q" "q < 2 ^ 53"
    using u by (simp_all add: q_def field_simps)
  have f: "2 ^ 52 \<le> \<lfloor>q\<rfloor>" "\<lfloor>q\<rfloor> < 2 ^ 53"
    using q by (simp_all add: le_floor_iff floor_less_iff)
  then have "2 ^ 52 \<le> round_half_even q \<and> round_half_even q \<le> 2 ^ 53"
    by (auto simp: round_half_even_def Let_def)
  moreover have "to_double x = of_int (round_half_even q) * ulp"
    using assms by (simp add: to_double_def ulp_def q_def Let_def)
  ultimately show ?thesis unfolding ulp_def by blast
qed


lemma to_double_relative:
  assumes "0 < x"
  shows "\<bar>to_double x - x\<bar> \<le> x / 2 ^ 53"
proof -
  have "pow2 (ilog2 x - 52) = pow2 (ilog2 x) / 2 ^ 52"
    using pow2_52 [of "ilog2 x"] by simp
  also have "\<dots> \<le> x / 2 ^ 52"
    using ilog2_bounds [OF assms] by (simp add: divide_right_mono)
  finally have "pow2 (ilog2 x - 52) / 2 \<le> x / 2 ^ 53" by simp
  with to_double_error [OF assms] show ?thesis by linarith
qed

lemma percentage_error:
  assumes "0 < q" "q \<le> 1"
  shows "\<bar>js_mul (js_div q 1) 100 - 100 * q\<bar> \<le> 1 / 2 ^ 45"
proof -
  define x1 where "x1 = to_double q"
  define x2 where "x2 = to_double (x1 * 100)"
  have e1: "\<bar>x1 - q\<bar> \<le> q / 2 ^ 53"
    unfolding x1_def by (rule to_double_relative [OF assms(1)])
  have "q / 2 ^ 53 < q" using assms(1) by simp
  with e1 have p1: "0 < x1" by linarith
  have u1: "x1 \<le> q + q / 2 ^ 53" using e1 by linarith
  have e2: "\<bar>x2 - x1 * 100\<bar> \<le> x1 * 100 / 2 ^ 53"
    unfolding x2_def using to_double_relative [of "x1 * 100"] p1 by simp
  have "\<bar>x2 - 100 * q\<bar> \<le> \<bar>x2 - x1 * 100\<bar> + 100 * \<bar>x1 - q\<bar>"
    by (auto simp: abs_if)
  also have "\<dots> \<le> x1 * 100 / 2 ^ 53 + 100 * (q / 2 ^ 53)"
    using e1 e2 by (intro add_mono mult_left_mono) simp_all
  also have "\<dots> \<le> (q + q / 2 ^ 53) * 100 / 2 ^ 53 + 100 * (q / 2 ^ 53)"
    using u1 by (simp add: divide_right_mono)
  also have "\<dots> = q * (100 * (2 / 2 ^ 53 + 1 / 2 ^ 106))"
    by (simp add: field_simps)
  also have "\<dots> \<le> 1 * (100 * (2 / 2 ^ 53 + 1 / 2 ^ 106))"
    using assms(2) by (intro mult_right_mono) simp_all
  also have "\<dots> \<le> 1 / 2 ^ 45" by simp
  finally show ?thesis by (simp add: js_mul_def js_div_def x1_def x2_def)
qed

section \<open>The heuristic\<close>

subsection \<open>Digits\<close>

lemma digit_char_props:
  assumes "d < 10"
  shows "is_digit (digit_char d)" "digit_val (digit_char d) = d"
proof -
  from assms have "d \<in> {0, 1, 2, 3, 4, 5, 6, 7, 8, 9}" by auto
  then show "is_digit (digit_char d)" "digit_val (digit_char d) = d"
    by (auto simp: digit_char_def is_digit_def digit_val_def)
qed

lemma string_of_nat_digits: "list_all is_digit (string_of_nat n)"
proof (induction n rule: string_of_nat.induct)
  case (1 n)
  show ?case
  proof (cases "n < 10")
    case True
    then show ?thesis
      by (subst string_of_nat.simps) (simp add: digit_char_props)
  next
    case False
    with 1 show ?thesis
      by (subst string_of_nat.simps) (simp add: digit_char_props)
  qed
qed

lemma string_of_nat_value:
  "foldl (\<lambda>a c. 10 * a + digit_val c) 0 (string_of_nat n) = n"
proof (induction n rule: string_of_nat.induct)
  case (1 n)
  show ?case
  proof (cases "n < 10")
    case True
    then show ?thesis
      by (subst string_of_nat.simps) (simp add: digit_char_props)
  next
    case False
    with 1 show ?thesis
      by (subst string_of_nat.simps) (simp add: digit_char_props)
  qed
qed

lemma string_of_nat_nonempty: "string_of_nat n \<noteq> []"
  by (subst string_of_nat.simps) simp

lemma parseInt_string_of_nat: "parseInt (string_of_nat n) = Some n"
proof -
  have all: "takeWhile is_digit (string_of_nat n) = string_of_nat n"
    using string_of_nat_digits [of n] by (simp add: takeWhile_eq_all_conv list_all_iff)
  show ?thesis
    unfolding parseInt_def Let_def all
    by (simp add: string_of_nat_nonempty string_of_nat_value)
qed

lemma rate_below_50_completionRate:
  "rate_below_50 (completionRate tasks completedTasks) \<longleftrightarrow>
     displayed_rate tasks completedTasks < 50"
proof (cases "length tasks > 0")
  case True
  then show ?thesis
    by (simp add: rate_below_50_def completionRate_def displayed_rate_def toFixed_def
        parseInt_string_of_nat)
next
  case False
  have "parseInt ''0'' = Some 0"
    using parseInt_string_of_nat [of 0] by (subst (asm) string_of_nat.simps) (simp add: digit_char_def)
  with False show ?thesis
    by (simp add: rate_below_50_def completionRate_def displayed_rate_def)
qed

subsection \<open>The rate that is compared with 50\<close>

lemma tie_rate: "js_mul (js_div 99 200) 100 = 99 / 2"
  by code_simp

lemma rounds_below_50:
  fixes x :: rat
  shows "nat \<lfloor>x + 1 / 2\<rfloor> < 50 \<longleftrightarrow> x < 99 / 2"
proof -
  have "nat z < 50 \<longleftrightarrow> z < 50" for z :: int by arith
  moreover have "\<lfloor>x + 1 / 2\<rfloor> < 50 \<longleftrightarrow> x + 1 / 2 < 50" by (simp add: floor_less_iff)
  moreover have "x + 1 / 2 < 50 \<longleftrightarrow> x < 99 / 2" by linarith
  ultimately show ?thesis by blast
qed


lemma displayed_rate_below_50:
  assumes "length completedTasks \<le> length tasks" "0 < length tasks" "length tasks < 2 ^ 32"
  shows "displayed_rate tasks completedTasks < 50
           \<longleftrightarrow> 200 * length completedTasks < 99 * length tasks"
proof -
  define c where "c = length completedTasks"
  define t where "t = length tasks"
  define C :: rat where "C = of_nat c"
  define T :: rat where "T = of_nat t"
  define x where "x = js_mul (js_div C T) 100"
  have "0 < T"
    using assms(2) by (simp add: T_def t_def)
  moreover have "T < 2 ^ 32"
  proof -
    have "(of_nat t :: rat) < of_nat (2 ^ 32)"
      using assms(3) unfolding t_def by (simp only: of_nat_less_iff)
    then show ?thesis by (simp add: T_def)
  qed
  ultimately have T: "0 < T" "T < 2 ^ 32" by blast+
  have CT: "C \<le> T" "0 \<le> C"
    using assms(1) by (simp_all add: C_def T_def c_def t_def)
  have "displayed_rate tasks completedTasks = nat \<lfloor>x + 1 / 2\<rfloor>"
    using assms(2) by (simp add: displayed_rate_def x_def C_def T_def c_def t_def)
  then have shown: "displayed_rate tasks completedTasks < 50 \<longleftrightarrow> x < 99 / 2"
    by (simp only: rounds_below_50)
  have exact: "200 * c < 99 * t \<longleftrightarrow> 200 * C < 99 * T"
  proof -
    have "200 * C = of_nat (200 * c)" "99 * T = of_nat (99 * t)"
      by (simp_all add: C_def T_def)
    then show ?thesis by (simp only: of_nat_less_iff)
  qed
  have small: "1 / 2 ^ 45 < 1 / (2 * T)"
  proof -
    have "2 * T < 2 ^ 45" using T(2) by simp
    then show ?thesis using T(1) by (simp add: frac_less2)
  qed
  have "x < 99 / 2 \<longleftrightarrow> 200 * C < 99 * T"
  proof (cases "c = 0")
    case True
    then have "x = 0" by (simp add: x_def C_def js_div_def js_mul_def to_double_def)
    with True T show ?thesis by (simp add: C_def)
  next
    case False
    then have "0 < C / T" "C / T \<le> 1"
      using T CT by (simp_all add: C_def)
    from percentage_error [OF this]
    have err: "\<bar>x - 100 * (C / T)\<bar> \<le> 1 / 2 ^ 45"
      by (simp add: x_def js_div_def)
    consider "200 * C + 1 \<le> 99 * T" | "200 * C = 99 * T" | "99 * T + 1 \<le> 200 * C"
    proof -
      have "200 * c + 1 \<le> 99 * t \<or> 200 * c = 99 * t \<or> 99 * t + 1 \<le> 200 * c"
        by linarith
      moreover have "200 * C + 1 = of_nat (200 * c + 1)" "99 * T = of_nat (99 * t)"
        "99 * T + 1 = of_nat (99 * t + 1)" "200 * C = of_nat (200 * c)"
        by (simp_all add: C_def T_def)
      ultimately have "200 * C + 1 \<le> 99 * T \<or> 200 * C = 99 * T \<or> 99 * T + 1 \<le> 200 * C"
        by (simp only: of_nat_le_iff of_nat_eq_iff)
      then show thesis using that by blast
    qed
    then show ?thesis
    proof cases
      case 1
      then have "(200 * C + 1) / (2 * T) \<le> (99 * T) / (2 * T)"
        using T by (intro divide_right_mono) simp_all
      moreover have "(200 * C + 1) / (2 * T) = 100 * (C / T) + 1 / (2 * T)"
        by (simp add: add_divide_distrib)
      moreover have "(99 * T) / (2 * T) = 99 / 2"
        using T by simp
      ultimately have "100 * (C / T) \<le> 99 / 2 - 1 / (2 * T)" by simp
      with err small have "x < 99 / 2" by linarith
      moreover from 1 have "200 * C < 99 * T" by linarith
      ultimately show ?thesis by simp
    next
      case 2
      then have ct: "C / T = 99 / 200"
        using T by (simp add: field_simps)
      have "x = js_mul (js_div 99 200) 100"
        unfolding x_def js_div_def ct ..
      then have "x = 99 / 2" by (simp only: tie_rate)
      with 2 show ?thesis by simp
    next
      case 3
      then have "(99 * T + 1) / (2 * T) \<le> (200 * C) / (2 * T)"
        using T by (intro divide_right_mono) simp_all
      moreover have "(99 * T + 1) / (2 * T) = 99 / 2 + 1 / (2 * T)"
        using T by (simp add: add_divide_distrib)
      moreover have "(200 * C) / (2 * T) = 100 * (C / T)" by simp
      ultimately have "99 / 2 + 1 / (2 * T) \<le> 100 * (C / T)" by simp
      with err small have "\<not> x < 99 / 2" by linarith
      moreover from 3 have "\<not> 200 * C < 99 * T" by linarith
      ultimately show ?thesis by simp
    qed
  qed
  with shown exact show ?thesis by (simp add: c_def t_def)
qed

subsection \<open>The most frequent priority\<close>

text \<open>
  C4. For a non-empty task list the second pattern line names the bucket that
  \<^verbatim>\<open>mostCommon\<close> picks, with its count. That bucket has the largest of the three counts; among
  buckets sharing the largest count the one listed first in the order high, medium, low is
  picked.
\<close>

theorem most_common_priority:
  assumes "tasks \<noteq> []"
  shows "mostCommon tasks =
           (if bucket ''medium'' tasks \<le> bucket ''high'' tasks
               \<and> bucket ''low'' tasks \<le> bucket ''high'' tasks
            then (''high'', bucket ''high'' tasks)
            else if bucket ''low'' tasks \<le> bucket ''medium'' tasks
            then (''medium'', bucket ''medium'' tasks)
            else (''low'', bucket ''low'' tasks))
         \<and> snd (mostCommon tasks) =
             max (bucket ''high'' tasks) (max (bucket ''medium'' tasks) (bucket ''low'' tasks))
         \<and> patterns (basicAnalysis tasks completedTasks incompleteTasks) ! 1 =
             ''Most tasks are '' @ fst (mostCommon tasks) @ '' priority (''
               @ string_of_nat (snd (mostCommon tasks)) @ '' tasks)''"
proof -
  have "mostCommon tasks =
           (if bucket ''medium'' tasks \<le> bucket ''high'' tasks
               \<and> bucket ''low'' tasks \<le> bucket ''high'' tasks
            then (''high'', bucket ''high'' tasks)
            else if bucket ''low'' tasks \<le> bucket ''medium'' tasks
            then (''medium'', bucket ''medium'' tasks)
            else (''low'', bucket ''low'' tasks))"
    by (simp add: mostCommon_def priorityDist_def js_sort_def)
  moreover have "patterns (basicAnalysis tasks completedTasks incompleteTasks) ! 1 =
             ''Most tasks are '' @ fst (mostCommon tasks) @ '' priority (''
               @ string_of_nat (snd (mostCommon tasks)) @ '' tasks)''"
    using assms by (simp add: basicAnalysis_def Let_def)
  moreover have "snd (mostCommon tasks) =
             max (bucket ''high'' tasks) (max (bucket ''medium'' tasks) (bucket ''low'' tasks))"
    by (simp add: mostCommon_def priorityDist_def js_sort_def max_def)
  ultimately show ?thesis by blast
qed

theorem most_common_priority_witness:
  "tied_tasks \<noteq> []
   \<and> priorityDist tied_tasks = [(''high'', 1), (''medium'', 2), (''low'', 2)]
   \<and> mostCommon tied_tasks = (''medium'', 2)"
proof -
  have b: "bucket ''high'' tied_tasks = 1" "bucket ''medium'' tied_tasks = 2"
    "bucket ''low'' tied_tasks = 2"
    by (simp_all add: bucket_def tied_tasks_def sample_task_def)
  have n: "tied_tasks \<noteq> []" by (simp add: tied_tasks_def)
  show ?thesis
    using most_common_priority [OF n] b n by (simp add: priorityDist_def)
qed


subsection \<open>Recommendations\<close>

lemma lines_distinct:
  "finish_line \<noteq> prioritize_line" "finish_line \<noteq> archive_line"
  "finish_line \<noteq> encouragement_line" "prioritize_line \<noteq> archive_line"
  "prioritize_line \<noteq> encouragement_line" "archive_line \<noteq> encouragement_line"
  by (simp_all add: finish_line_def prioritize_line_def archive_line_def encouragement_line_def)

lemma recommendations_basicAnalysis:
  "recommendations (basicAnalysis tasks completedTasks incompleteTasks) =
     (if displayed_rate tasks completedTasks < 50 \<and> length tasks > 3 then [finish_line] else [])
     @ (if highPriority incompleteTasks > 0 then [prioritize_line] else [])
     @ (if length incompleteTasks > 10 then [archive_line] else [encouragement_line])"
  by (simp add: basicAnalysis_def Let_def rate_below_50_completionRate)

text \<open>
  C5, as amended. The recommendations hold the "finish" line exactly when the completion
  rate rounded to a whole percent (the figure that \<^verbatim>\<open>toFixed(0)\<close> prints and
  \<^verbatim>\<open>parseInt\<close> reads back) is below 50 and there are more than 3 tasks, the "prioritize"
  line exactly when some incomplete task has high priority, the "archive" line exactly when
  more than 10 tasks are incomplete and the encouragement line exactly when not; the list
  is never empty and has at most 3 entries. For a task list as long as a JavaScript array
  can be, the rounded rate is below 50 exactly when the exact rate is below 49.5 per cent.
\<close>

theorem recommendations_shape:
  "(finish_line \<in> set (recommendations (basicAnalysis tasks completedTasks incompleteTasks))
      \<longleftrightarrow> displayed_rate tasks completedTasks < 50 \<and> length tasks > 3)
   \<and> (prioritize_line \<in> set (recommendations (basicAnalysis tasks completedTasks incompleteTasks))
      \<longleftrightarrow> highPriority incompleteTasks > 0)
   \<and> (archive_line \<in> set (recommendations (basicAnalysis tasks completedTasks incompleteTasks))
      \<longleftrightarrow> length incompleteTasks > 10)
   \<and> (encouragement_line \<in> set (recommendations (basicAnalysis tasks completedTasks incompleteTasks))
      \<longleftrightarrow> \<not> length incompleteTasks > 10)
   \<and> recommendations (basicAnalysis tasks completedTasks incompleteTasks) \<noteq> []
   \<and> length (recommendations (basicAnalysis tasks completedTasks incompleteTasks)) \<le> 3
   \<and> (length completedTasks \<le> length tasks \<and> 0 < length tasks \<and> length tasks < 2 ^ 32
        \<longrightarrow> (displayed_rate tasks completedTasks < 50
               \<longleftrightarrow> 200 * length completedTasks < 99 * length tasks))"
proof -
  have "length completedTasks \<le> length tasks \<and> 0 < length tasks \<and> length tasks < 2 ^ 32
        \<longrightarrow> (displayed_rate tasks completedTasks < 50
               \<longleftrightarrow> 200 * length completedTasks < 99 * length tasks)"
    using displayed_rate_below_50 [of completedTasks tasks] by blast
  then show ?thesis
    using lines_distinct lines_distinct [symmetric]
    by (simp add: recommendations_basicAnalysis)
qed

lemma tied_lengths:
  "length tied_tasks = 5" "length (done_tasks tied_tasks) = 1"
  "length (open_tasks tied_tasks) = 4"
  by (simp_all add: tied_tasks_def done_tasks_def open_tasks_def sample_task_def)

theorem recommendations_shape_witness:
  "length (done_tasks tied_tasks) \<le> length tied_tasks
   \<and> 0 < length tied_tasks
   \<and> length tied_tasks < 2 ^ 32
   \<and> 200 * length (done_tasks tied_tasks) < 99 * length tied_tasks
   \<and> displayed_rate tied_tasks (done_tasks tied_tasks) < 50
   \<and> finish_line \<in> set (recommendations
        (basicAnalysis tied_tasks (done_tasks tied_tasks) (open_tasks tied_tasks)))"
  using recommendations_shape [of tied_tasks "done_tasks tied_tasks" "open_tasks tied_tasks"]
  by (simp add: tied_lengths)

lemma half_done_lengths:
  "length half_done_tasks = 101" "length (done_tasks half_done_tasks) = 50"
  "length (open_tasks half_done_tasks) = 51"
proof -
  show total: "length half_done_tasks = 101"
    by (simp add: half_done_tasks_def)
  have "done_tasks half_done_tasks =
          map (\<lambda>i. sample_task i (if i \<le> 50 then ''done'' else ''todo'') ''medium'' (1000 * i) 0)
            (filter (\<lambda>i. i \<le> 50) [1..<102])"
    by (simp add: done_tasks_def half_done_tasks_def filter_map comp_def sample_task_def)
  then have "length (done_tasks half_done_tasks) = card ({i. i \<le> 50} \<inter> set [1..<102])"
    by (simp add: distinct_length_filter)
  also have "{i. i \<le> 50} \<inter> set [1..<102] = {1..50::nat}"
    by auto
  finally show completed: "length (done_tasks half_done_tasks) = 50"
    by simp
  have "length (done_tasks half_done_tasks) + length (open_tasks half_done_tasks) =
          length half_done_tasks"
    unfolding done_tasks_def open_tasks_def by (rule sum_length_filter_compl)
  with total completed show "length (open_tasks half_done_tasks) = 51"
    by simp
qed

lemma half_done_rate: "toFixed 0 (js_mul (js_div 50 101) 100) = ''50''"
  by code_simp

lemma half_done_double: "js_mul (js_div 50 101) 100 < 50"
  by code_simp

lemma parseInt_50: "parseInt ''50'' = Some 50"
  by (simp add: parseInt_def is_digit_def digit_val_def)

text \<open>
  C5 as stated fails: of 101 tasks with 50 done the completion rate is below 50 per cent
  (both as a fraction and as the double the code computes), there are more than 3 tasks,
  and the "finish" line is not recommended, because the rate is printed as 50.
\<close>

theorem recommendations_counterexample:
  "half_done_tasks \<noteq> []
   \<and> 100 * length (done_tasks half_done_tasks) < 50 * length half_done_tasks
   \<and> js_mul (js_div (of_nat (length (done_tasks half_done_tasks)))
                (of_nat (length half_done_tasks))) 100 < 50
   \<and> length half_done_tasks > 3
   \<and> finish_line \<notin> set (recommendations
        (basicAnalysis half_done_tasks (done_tasks half_done_tasks) (open_tasks half_done_tasks)))"
proof -
  have "completionRate half_done_tasks (done_tasks half_done_tasks) = ''50''"
    by (simp add: completionRate_def half_done_lengths half_done_rate)
  then have "\<not> rate_below_50 (completionRate half_done_tasks (done_tasks half_done_tasks))"
    by (simp add: rate_below_50_def parseInt_50)
  moreover have "half_done_tasks \<noteq> []"
    using half_done_lengths(1) by auto
  ultimately show ?thesis
    using lines_distinct
    by (simp add: basicAnalysis_def Let_def half_done_lengths half_done_double)
qed

end
